theory Spec2Isabelle
  imports Complex_Main "HOL-Library.Sublist" "HOL-Library.AList" "HOL-Library.Log_Nat"
begin

section \<open>TourConnect: the reconciliation and synchronisation core\<close>

text \<open>
  A shallow embedding of the Python package \<^verbatim>\<open>ecuador_data\<close>: the field extractors and
  the text normaliser of \<^verbatim>\<open>optimized_services.py\<close> and
  \<^verbatim>\<open>enhanced_heritage_services.py\<close>, the enrichment merge, the staleness check and the
  per-type synchronisation runs, and the clean-up pass of
  \<^verbatim>\<open>management/commands/load_and_clean_data.py\<close>.

  Conventions of the embedding.
  \<^item> A Python \<^verbatim>\<open>str\<close> is a \<^typ>\<open>string\<close>; every \<^typ>\<open>char\<close> is one code point
    of the range U+0000 .. U+00FF (Latin-1, which holds the Spanish alphabet). Code points
    beyond U+00FF are not represented. A character that is not printable ASCII is written
    \<open>CHR 0x..\<close>, for instance \<open>CHR 0xF3\<close> for o-acute.
  \<^item> \<^verbatim>\<open>None\<close> is \<^const>\<open>None\<close>; a function that can raise returns a sum, the
    exception on the left.
  \<^item> A \<^verbatim>\<open>dict\<close> whose iteration order matters is an association list.
\<close>

subsection \<open>Built-in string operations of Python\<close>

text \<open>\<^verbatim>\<open>str.isspace\<close>, the white space of \<^verbatim>\<open>str.split()\<close>, \<^verbatim>\<open>str.strip()\<close> and of
  \<^verbatim>\<open>\s\<close> in a \<^verbatim>\<open>str\<close> pattern, on U+0000 .. U+00FF.\<close>

definition is_space :: "char \<Rightarrow> bool" where
  "is_space c \<longleftrightarrow>
     c \<in> set [CHR 0x09, CHR 0x0A, CHR 0x0B, CHR 0x0C, CHR 0x0D, CHR 0x1C, CHR 0x1D,
               CHR 0x1E, CHR 0x1F, CHR 0x20, CHR 0x85, CHR 0xA0]"

definition is_digit :: "char \<Rightarrow> bool" where
  "is_digit c \<longleftrightarrow> c \<in> set ''0123456789''"

text \<open>The character class \<^verbatim>\<open>[a-zA-Z0-9]\<close>.\<close>

definition is_ascii_alnum :: "char \<Rightarrow> bool" where
  "is_ascii_alnum c \<longleftrightarrow>
     c \<in> set ''abcdefghijklmnopqrstuvwxyzABCDEFGHIJKLMNOPQRSTUVWXYZ0123456789''"

text \<open>\<^verbatim>\<open>str.lower\<close>: the cased characters of U+0000 .. U+00FF are A .. Z and
  U+00C0 .. U+00DE without the multiplication sign U+00D7; each one lowers to the code
  point 32 above it.\<close>

definition upper_case_letters :: string where
  "upper_case_letters =
     ''ABCDEFGHIJKLMNOPQRSTUVWXYZ'' @
     [CHR 0xC0, CHR 0xC1, CHR 0xC2, CHR 0xC3, CHR 0xC4, CHR 0xC5, CHR 0xC6, CHR 0xC7,
      CHR 0xC8, CHR 0xC9, CHR 0xCA, CHR 0xCB, CHR 0xCC, CHR 0xCD, CHR 0xCE, CHR 0xCF,
      CHR 0xD0, CHR 0xD1, CHR 0xD2, CHR 0xD3, CHR 0xD4, CHR 0xD5, CHR 0xD6,
      CHR 0xD8, CHR 0xD9, CHR 0xDA, CHR 0xDB, CHR 0xDC, CHR 0xDD, CHR 0xDE]"

definition lower_case_letters :: string where
  "lower_case_letters =
     ''abcdefghijklmnopqrstuvwxyz'' @
     [CHR 0xE0, CHR 0xE1, CHR 0xE2, CHR 0xE3, CHR 0xE4, CHR 0xE5, CHR 0xE6, CHR 0xE7,
      CHR 0xE8, CHR 0xE9, CHR 0xEA, CHR 0xEB, CHR 0xEC, CHR 0xED, CHR 0xEE, CHR 0xEF,
      CHR 0xF0, CHR 0xF1, CHR 0xF2, CHR 0xF3, CHR 0xF4, CHR 0xF5, CHR 0xF6,
      CHR 0xF8, CHR 0xF9, CHR 0xFA, CHR 0xFB, CHR 0xFC, CHR 0xFD, CHR 0xFE]"

definition lower_char :: "char \<Rightarrow> char" where
  "lower_char c =
     (case map_of (zip upper_case_letters lower_case_letters) c of
        None \<Rightarrow> c
      | Some d \<Rightarrow> d)"

definition lower :: "string \<Rightarrow> string" where
  "lower s = map lower_char s"

text \<open>\<^verbatim>\<open>str.upper\<close>. The sharp s U+00DF becomes \<^verbatim>\<open>SS\<close>. The micro sign U+00B5 and
  y-diaeresis U+00FF have their capitals beyond U+00FF and are left as they are: the one
  call of the source applies \<^verbatim>\<open>upper\<close> to a category label, and no label holds them.\<close>

definition upper_char :: "char \<Rightarrow> string" where
  "upper_char c =
     (if c = CHR 0xDF then ''SS''
      else case map_of (zip lower_case_letters upper_case_letters) c of
             None \<Rightarrow> [c]
           | Some d \<Rightarrow> [d])"

definition upper :: "string \<Rightarrow> string" where
  "upper s = concat (map upper_char s)"

text \<open>\<^verbatim>\<open>sub in s\<close> is \<^term>\<open>sublist sub s\<close>, \<^verbatim>\<open>s.startswith(p)\<close> is \<^term>\<open>prefix p s\<close> and
  \<^verbatim>\<open>s.endswith(p)\<close> is \<^term>\<open>suffix p s\<close>.

  \<^verbatim>\<open>s.replace(old, new)\<close> replaces the occurrences of \<open>old\<close> from left to right, without
  overlap.\<close>

function str_replace :: "string \<Rightarrow> string \<Rightarrow> string \<Rightarrow> string" where
  "str_replace old new [] = (if old = [] then new else [])"
| "str_replace old new (c # cs) =
     (if old = [] then new @ c # str_replace old new cs
      else if prefix old (c # cs) then new @ str_replace old new (drop (length old) (c # cs))
      else c # str_replace old new cs)"
  by pat_completeness auto
termination
  by (relation "measure (\<lambda>(old, new, s). length s)") auto

text \<open>\<^verbatim>\<open>s.split(sep)\<close> for a separator that is not empty (each separator of the source is
  a literal); \<open>cur\<close> is the piece read so far.\<close>

function str_split_from :: "string \<Rightarrow> string \<Rightarrow> string \<Rightarrow> string list" where
  "str_split_from sep cur [] = [cur]"
| "str_split_from sep cur (c # cs) =
     (if sep \<noteq> [] \<and> prefix sep (c # cs)
      then cur # str_split_from sep [] (drop (length sep) (c # cs))
      else str_split_from sep (cur @ [c]) cs)"
  by pat_completeness auto
termination
  by (relation "measure (\<lambda>(sep, cur, s). length s)") auto

definition str_split :: "string \<Rightarrow> string \<Rightarrow> string list" where
  "str_split sep s = str_split_from sep [] s"

text \<open>\<^verbatim>\<open>s.split()\<close>: the maximal runs of characters that are not white space.\<close>

fun split_ws_from :: "string \<Rightarrow> string \<Rightarrow> string list" where
  "split_ws_from cur [] = (if cur = [] then [] else [cur])"
| "split_ws_from cur (c # cs) =
     (if is_space c then (if cur = [] then split_ws_from [] cs else cur # split_ws_from [] cs)
      else split_ws_from (cur @ [c]) cs)"

definition split_ws :: "string \<Rightarrow> string list" where
  "split_ws s = split_ws_from [] s"

definition strip_with :: "(char \<Rightarrow> bool) \<Rightarrow> string \<Rightarrow> string" where
  "strip_with sp s = rev (dropWhile sp (rev (dropWhile sp s)))"

text \<open>\<^verbatim>\<open>s.strip()\<close>.\<close>

definition strip :: "string \<Rightarrow> string" where
  "strip s = strip_with is_space s"

text \<open>\<^verbatim>\<open>unicodedata.normalize('NFKD', s).encode('ASCII', 'ignore').decode('ASCII')\<close>:
  every character is replaced by its compatibility decomposition, of which the ASCII
  characters are kept. An ASCII character is its own decomposition. The table lists the
  characters of U+0080 .. U+00FF whose decomposition holds an ASCII character; the others
  (for instance U+00C6, U+00D8, U+00DF, U+00B5) vanish.\<close>

definition nfkd_ascii_table :: "(char \<times> string) list" where
  "nfkd_ascii_table =
     [(CHR 0xA0, '' ''), (CHR 0xA8, '' ''), (CHR 0xAA, ''a''), (CHR 0xAF, '' ''),
      (CHR 0xB2, ''2''), (CHR 0xB3, ''3''), (CHR 0xB4, '' ''), (CHR 0xB8, '' ''),
      (CHR 0xB9, ''1''), (CHR 0xBA, ''o''), (CHR 0xBC, ''14''), (CHR 0xBD, ''12''),
      (CHR 0xBE, ''34''),
      (CHR 0xC0, ''A''), (CHR 0xC1, ''A''), (CHR 0xC2, ''A''), (CHR 0xC3, ''A''),
      (CHR 0xC4, ''A''), (CHR 0xC5, ''A''), (CHR 0xC7, ''C''),
      (CHR 0xC8, ''E''), (CHR 0xC9, ''E''), (CHR 0xCA, ''E''), (CHR 0xCB, ''E''),
      (CHR 0xCC, ''I''), (CHR 0xCD, ''I''), (CHR 0xCE, ''I''), (CHR 0xCF, ''I''),
      (CHR 0xD1, ''N''),
      (CHR 0xD2, ''O''), (CHR 0xD3, ''O''), (CHR 0xD4, ''O''), (CHR 0xD5, ''O''),
      (CHR 0xD6, ''O''),
      (CHR 0xD9, ''U''), (CHR 0xDA, ''U''), (CHR 0xDB, ''U''), (CHR 0xDC, ''U''),
      (CHR 0xDD, ''Y''),
      (CHR 0xE0, ''a''), (CHR 0xE1, ''a''), (CHR 0xE2, ''a''), (CHR 0xE3, ''a''),
      (CHR 0xE4, ''a''), (CHR 0xE5, ''a''), (CHR 0xE7, ''c''),
      (CHR 0xE8, ''e''), (CHR 0xE9, ''e''), (CHR 0xEA, ''e''), (CHR 0xEB, ''e''),
      (CHR 0xEC, ''i''), (CHR 0xED, ''i''), (CHR 0xEE, ''i''), (CHR 0xEF, ''i''),
      (CHR 0xF1, ''n''),
      (CHR 0xF2, ''o''), (CHR 0xF3, ''o''), (CHR 0xF4, ''o''), (CHR 0xF5, ''o''),
      (CHR 0xF6, ''o''),
      (CHR 0xF9, ''u''), (CHR 0xFA, ''u''), (CHR 0xFB, ''u''), (CHR 0xFC, ''u''),
      (CHR 0xFD, ''y''), (CHR 0xFF, ''y'')]"

definition nfkd_ascii_char :: "char \<Rightarrow> string" where
  "nfkd_ascii_char c =
     (if (of_char c :: nat) < 128 then [c]
      else case map_of nfkd_ascii_table c of None \<Rightarrow> [] | Some s \<Rightarrow> s)"

definition nfkd_ascii :: "string \<Rightarrow> string" where
  "nfkd_ascii s = concat (map nfkd_ascii_char s)"

subsection \<open>Floating-point numbers and \<^verbatim>\<open>float(str)\<close>\<close>

text \<open>A Python \<^verbatim>\<open>float\<close> is a binary64 number. \<open>Finite r\<close> is the finite number whose
  exact value is the rational \<open>r\<close>; the sign of zero is not kept.\<close>

datatype pyfloat = Finite rat | PInf | NInf | NaN

definition is_finite :: "pyfloat \<Rightarrow> bool" where
  "is_finite x = (case x of Finite r \<Rightarrow> True | _ \<Rightarrow> False)"

definition pow2 :: "int \<Rightarrow> rat" where
  "pow2 k = (if 0 \<le> k then 2 ^ nat k else 1 / 2 ^ nat (- k))"

definition pow10 :: "int \<Rightarrow> rat" where
  "pow10 k = (if 0 \<le> k then 10 ^ nat k else 1 / 10 ^ nat (- k))"

text \<open>The exponent of a positive rational: \<open>pow2 (ilog2 a) \<le> a < pow2 (ilog2 a + 1)\<close>.\<close>

definition ilog2 :: "rat \<Rightarrow> int" where
  "ilog2 a =
     (let (p, q) = quotient_of a;
          d = int (floorlog 2 (nat p)) - int (floorlog 2 (nat q))
      in if pow2 d \<le> a then d else d - 1)"

definition round_half_even :: "rat \<Rightarrow> int" where
  "round_half_even x =
     (let f = \<lfloor>x\<rfloor>; d = x - of_int f
      in if d < 1 / 2 then f else if 1 / 2 < d then f + 1 else if even f then f else f + 1)"

text \<open>Rounding to the nearest binary64 number, ties to even: 53 significant bits, the
  least exponent -1022 (below it the numbers are subnormal), and a result of
  \<open>2 ^ 1024\<close> or more is an infinity.\<close>

definition round_binary64 :: "rat \<Rightarrow> pyfloat" where
  "round_binary64 v =
     (if v = 0 then Finite 0
      else let a = \<bar>v\<bar>;
               e = max (ilog2 a) (- 1022);
               q = pow2 (e - 52);
               n = round_half_even (a / q)
           in if 1024 \<le> e \<or> (e = 1023 \<and> n = 2 ^ 53)
              then (if v < 0 then NInf else PInf)
              else Finite (if v < 0 then - (of_int n * q) else of_int n * q))"

definition digit_value :: "char \<Rightarrow> nat" where
  "digit_value c = of_char c - 48"

definition nat_of_digits :: "string \<Rightarrow> nat" where
  "nat_of_digits ds = foldl (\<lambda>n c. 10 * n + digit_value c) 0 ds"

text \<open>An underscore of a numeric literal stands between two digits; \<open>prev\<close> is the
  character before the rest. \<open>None\<close> is the \<^verbatim>\<open>ValueError\<close>.\<close>

fun strip_underscores :: "char \<Rightarrow> string \<Rightarrow> string option" where
  "strip_underscores prev [] = (if prev = CHR ''_'' then None else Some [])"
| "strip_underscores prev (c # cs) =
     (if c = CHR ''_'' then (if is_digit prev then strip_underscores c cs else None)
      else if prev = CHR ''_'' \<and> \<not> is_digit c then None
      else map_option ((#) c) (strip_underscores c cs))"

definition split_sign :: "string \<Rightarrow> bool \<times> string" where
  "split_sign s =
     (case s of
        [] \<Rightarrow> (False, s)
      | c # r \<Rightarrow> if c = CHR ''-'' then (True, r) else if c = CHR ''+'' then (False, r)
                 else (False, s))"

text \<open>The unsigned decimal number: digits, an optional point and digits (one digit at
  least in all), an optional exponent. \<open>split_fraction\<close> reads the point and the digits
  after it; \<open>parse_exponent\<close> reads the rest, which is empty or an exponent (\<open>None\<close>:
  it is neither).\<close>

definition split_fraction :: "string \<Rightarrow> string \<times> string" where
  "split_fraction r1 =
     (case r1 of
        [] \<Rightarrow> ([], r1)
      | c # r' \<Rightarrow> if c = CHR ''.'' then (takeWhile is_digit r', dropWhile is_digit r')
                  else ([], r1))"

definition parse_exponent :: "string \<Rightarrow> int option" where
  "parse_exponent r2 =
     (case r2 of
        [] \<Rightarrow> Some 0
      | e # r3 \<Rightarrow>
          if e = CHR ''e'' \<or> e = CHR ''E''
          then (let (eneg, ds) = split_sign r3;
                    x = int (nat_of_digits ds)
                in if ds \<noteq> [] \<and> list_all is_digit ds
                   then Some (if eneg then - x else x)
                   else None)
          else None)"

definition parse_decimal :: "string \<Rightarrow> rat option" where
  "parse_decimal r =
     (let ip = takeWhile is_digit r;
          (fp, r2) = split_fraction (dropWhile is_digit r)
      in if ip = [] \<and> fp = [] then None
         else case parse_exponent r2 of
                None \<Rightarrow> None
              | Some x \<Rightarrow> Some (of_nat (nat_of_digits (ip @ fp)) * pow10 (x - int (length fp))))"

definition float_of_ascii :: "string \<Rightarrow> pyfloat option" where
  "float_of_ascii u =
     (let (neg, r) = split_sign u
      in if lower r = ''inf'' \<or> lower r = ''infinity'' then Some (if neg then NInf else PInf)
         else if lower r = ''nan'' then Some NaN
         else case parse_decimal r of
                None \<Rightarrow> None
              | Some v \<Rightarrow> Some (round_binary64 (if neg then - v else v)))"

text \<open>The white space that \<^verbatim>\<open>float\<close> strips after it has turned every white space
  beyond ASCII into a blank.\<close>

definition is_ascii_space :: "char \<Rightarrow> bool" where
  "is_ascii_space c \<longleftrightarrow> c \<in> set [CHR 0x09, CHR 0x0A, CHR 0x0B, CHR 0x0C, CHR 0x0D, CHR 0x20]"

text \<open>\<^verbatim>\<open>float(s)\<close> for a string \<open>s\<close>; \<open>None\<close> is the \<^verbatim>\<open>ValueError\<close>, the one
  exception it raises on a string.\<close>

definition py_float :: "string \<Rightarrow> pyfloat option" where
  "py_float s =
     (let t = map (\<lambda>c. if 127 \<le> (of_char c :: nat) \<and> is_space c then CHR '' '' else c) s
      in case strip_underscores (CHR 0x00) t of
           None \<Rightarrow> None
         | Some u \<Rightarrow> float_of_ascii (strip_with is_ascii_space u))"

text \<open>\<^verbatim>\<open>int(x)\<close> on a finite float truncates towards zero.\<close>

definition int_of_rat :: "rat \<Rightarrow> int" where
  "int_of_rat r = (if 0 \<le> r then \<lfloor>r\<rfloor> else \<lceil>r\<rceil>)"

datatype py_exception =
  OverflowError | UnboundLocalError | MultipleObjectsReturned | IntegrityError | FieldError

subsection \<open>Query results\<close>

text \<open>A binding of a SPARQL result maps a variable to a term, a dictionary with the
  key \<^verbatim>\<open>value\<close> (and \<^verbatim>\<open>type\<close>, \<^verbatim>\<open>xml:lang\<close>). A query answers a list of bindings,
  or \<^verbatim>\<open>None\<close> when it failed.\<close>

type_synonym rdf_term = "(string \<times> string) list"

type_synonym binding = "(string \<times> rdf_term) list"

text \<open>\<^verbatim>\<open>item.get(k, {}).get("value", "")\<close>\<close>

definition get_value :: "binding \<Rightarrow> string \<Rightarrow> string" where
  "get_value item k =
     (case map_of item k of
        None \<Rightarrow> []
      | Some d \<Rightarrow> (case map_of d ''value'' of None \<Rightarrow> [] | Some v \<Rightarrow> v))"

text \<open>\<^verbatim>\<open>item.get(k, {}).get("value")\<close>\<close>

definition get_value_opt :: "binding \<Rightarrow> string \<Rightarrow> string option" where
  "get_value_opt item k =
     (case map_of item k of None \<Rightarrow> None | Some d \<Rightarrow> map_of d ''value'')"

text \<open>The truth value of \<^verbatim>\<open>item.get(k)\<close>: the key is there and its dictionary is not
  empty.\<close>

definition has_term :: "binding \<Rightarrow> string \<Rightarrow> bool" where
  "has_term item k = (case map_of item k of None \<Rightarrow> False | Some d \<Rightarrow> d \<noteq> [])"

text \<open>\<^verbatim>\<open>xs or []\<close>\<close>

definition or_empty :: "'a list option \<Rightarrow> 'a list" where
  "or_empty r = (case r of None \<Rightarrow> [] | Some xs \<Rightarrow> xs)"

subsection \<open>Field extractors\<close>

text \<open>\<^verbatim>\<open>coord_str.replace("Point(", "").replace(")", "").split()\<close>, the tokens of a
  coordinate string.\<close>

definition point_tokens :: "string \<Rightarrow> string list" where
  "point_tokens coord_str = split_ws (str_replace '')'' [] (str_replace ''Point('' [] coord_str))"

text \<open>\<^verbatim>\<open>OptimizedDataSyncService._parse_coordinates_optimized\<close>: the pair
  (latitude, longitude). \<^verbatim>\<open>float(coords[1])\<close> is evaluated first; a \<^verbatim>\<open>ValueError\<close> of
  either call leaves the \<^verbatim>\<open>try\<close> for the final \<^verbatim>\<open>return None, None\<close>.\<close>

definition parse_coordinates_optimized :: "string \<Rightarrow> pyfloat option \<times> pyfloat option" where
  "parse_coordinates_optimized coord_str =
     (if coord_str = [] \<or> \<not> sublist ''Point('' coord_str then (None, None)
      else let coords = point_tokens coord_str
           in if length coords = 2
              then (case py_float (coords ! 1) of
                      None \<Rightarrow> (None, None)
                    | Some lat \<Rightarrow> (case py_float (coords ! 0) of
                                    None \<Rightarrow> (None, None)
                                  | Some lon \<Rightarrow> (Some lat, Some lon)))
              else (None, None))"

text \<open>\<^verbatim>\<open>EnhancedHeritageProcessor._parse_coordinates\<close> answers the dictionary with the
  keys \<^verbatim>\<open>latitud\<close> and \<^verbatim>\<open>longitud\<close>.\<close>

record coordenadas =
  co_latitud :: "pyfloat option"
  co_longitud :: "pyfloat option"

definition parse_coordinates :: "string \<Rightarrow> coordenadas" where
  "parse_coordinates coord_str =
     (if coord_str = [] \<or> \<not> sublist ''Point('' coord_str
      then \<lparr>co_latitud = None, co_longitud = None\<rparr>
      else let coords = point_tokens coord_str
           in if length coords = 2
              then (case py_float (coords ! 1) of
                      None \<Rightarrow> \<lparr>co_latitud = None, co_longitud = None\<rparr>
                    | Some lat \<Rightarrow> (case py_float (coords ! 0) of
                                    None \<Rightarrow> \<lparr>co_latitud = None, co_longitud = None\<rparr>
                                  | Some lon \<Rightarrow> \<lparr>co_latitud = Some lat, co_longitud = Some lon\<rparr>))
              else \<lparr>co_latitud = None, co_longitud = None\<rparr>)"

text \<open>\<^verbatim>\<open>EnhancedHeritageProcessor._parse_date\<close>. No operation of the \<^verbatim>\<open>try\<close> block
  raises on a string, so its \<^verbatim>\<open>except: return date_str\<close> is never reached.\<close>

definition parse_date :: "string \<Rightarrow> string option" where
  "parse_date date_str =
     (if date_str = [] then None
      else if sublist ''T'' date_str then Some (hd (str_split ''T'' date_str))
      else Some (if 10 \<le> length date_str then take 10 date_str else date_str))"

text \<open>\<^verbatim>\<open>_parse_float\<close> of the three services: \<^verbatim>\<open>None\<close> for \<^verbatim>\<open>None\<close>, for the empty
  string and where \<^verbatim>\<open>float\<close> raises.\<close>

definition parse_float :: "string option \<Rightarrow> pyfloat option" where
  "parse_float v =
     (case v of
        None \<Rightarrow> None
      | Some s \<Rightarrow> if s = [] then None else py_float s)"

text \<open>\<^verbatim>\<open>_parse_int\<close>: \<^verbatim>\<open>int(float(value))\<close> inside
  \<^verbatim>\<open>except (ValueError, TypeError)\<close>. \<^verbatim>\<open>int\<close> of a NaN is a \<^verbatim>\<open>ValueError\<close> and is
  caught; \<^verbatim>\<open>int\<close> of an infinity is an \<^verbatim>\<open>OverflowError\<close>, which leaves the
  function.\<close>

definition parse_int :: "string option \<Rightarrow> py_exception + int option" where
  "parse_int v =
     (case v of
        None \<Rightarrow> Inr None
      | Some s \<Rightarrow>
          if s = [] then Inr None
          else (case py_float s of
                  None \<Rightarrow> Inr None
                | Some NaN \<Rightarrow> Inr None
                | Some PInf \<Rightarrow> Inl OverflowError
                | Some NInf \<Rightarrow> Inl OverflowError
                | Some (Finite r) \<Rightarrow> Inr (Some (int_of_rat r))))"

text \<open>\<^verbatim>\<open>EnhancedHeritageProcessor._extract_wikidata_id\<close>, and the expression
  \<^verbatim>\<open>item.get(k, {}).get("value", "").split("/")[-1] if item.get(k) else ""\<close> of the
  synchronisation runs.\<close>

definition extract_wikidata_id :: "string \<Rightarrow> string" where
  "extract_wikidata_id wikidata_url =
     (if wikidata_url = [] then [] else last (str_split ''/'' wikidata_url))"

definition wikidata_id_of :: "binding \<Rightarrow> string \<Rightarrow> string" where
  "wikidata_id_of item k =
     (if has_term item k then last (str_split ''/'' (get_value item k)) else [])"

subsection \<open>The category of a heritage site\<close>

text \<open>\<^verbatim>\<open>EnhancedHeritageProcessor._determine_category\<close>. The labels read
  \<^verbatim>\<open>Arqueol\<close>\<open>\<acute>\<close>\<^verbatim>\<open>ogico\<close> and \<^verbatim>\<open>Hist\<close>\<open>\<acute>\<close>\<^verbatim>\<open>orico\<close>, with o-acute \<open>CHR 0xF3\<close>.\<close>

definition determine_category :: "binding \<Rightarrow> string" where
  "determine_category data =
     (let tipo = lower (get_value data ''tipoLabel'')
      in if sublist ''unesco'' tipo \<or> sublist ''patrimonio mundial'' tipo then ''UNESCO''
         else if sublist (''arqueol'' @ [CHR 0xF3] @ ''g'') tipo \<or> sublist ''arqueolog'' tipo
           then ''Arqueol'' @ [CHR 0xF3] @ ''gico''
         else if sublist ''iglesia'' tipo \<or> sublist ''catedral'' tipo \<or> sublist ''religios'' tipo
           then ''Religioso''
         else if sublist ''museo'' tipo then ''Museo''
         else if sublist (''hist'' @ [CHR 0xF3] @ ''ric'') tipo \<or> sublist ''monument'' tipo
           then ''Hist'' @ [CHR 0xF3] @ ''rico''
         else ''Patrimonial'')"

text \<open>The priority order as the specification words it: an ordered list of keyword
  groups, each with its category, the first group with a keyword in the lower-cased label
  wins, and a fallback.\<close>

definition category_rules :: "(string list \<times> string) list" where
  "category_rules =
     [([''unesco'', ''patrimonio mundial''], ''UNESCO''),
      ([''arqueol'' @ [CHR 0xF3] @ ''g'', ''arqueolog''], ''Arqueol'' @ [CHR 0xF3] @ ''gico''),
      ([''iglesia'', ''catedral'', ''religios''], ''Religioso''),
      ([''museo''], ''Museo''),
      ([''hist'' @ [CHR 0xF3] @ ''ric'', ''monument''], ''Hist'' @ [CHR 0xF3] @ ''rico'')]"

definition group_matches :: "string \<Rightarrow> string list \<Rightarrow> bool" where
  "group_matches label keywords = list_ex (\<lambda>k. sublist k label) keywords"

fun first_match :: "(string list \<times> string) list \<Rightarrow> string \<Rightarrow> string \<Rightarrow> string" where
  "first_match [] fallback label = fallback"
| "first_match ((keywords, category) # rules) fallback label =
     (if group_matches label keywords then category else first_match rules fallback label)"

subsection \<open>The text normaliser\<close>

text \<open>\<^verbatim>\<open>TextProcessor.normalize_name\<close>. \<^verbatim>\<open>CLEANUP_PATTERN\<close> is
  \<^verbatim>\<open>[^a-zA-Z0-9\s]\<close> and \<^verbatim>\<open>NORMALIZE_PATTERN\<close> is \<^verbatim>\<open>\s+\<close>; replacing every match of
  either by the empty string deletes the characters of the class. The \<^verbatim>\<open>lru_cache\<close>
  only stores results.\<close>

definition normalize_name :: "string \<Rightarrow> string" where
  "normalize_name name =
     (if name = [] then []
      else let n0 = nfkd_ascii name;
               n1 = lower n0;
               n2 = str_replace ''ecuador'' [] (str_replace ''province'' []
                      (str_replace ''provincia'' [] n1));
               n3 = str_replace ''el'' [] (str_replace ''la'' [] (str_replace ''de'' []
                      (str_replace ''del'' [] n2)));
               n4 = str_replace ''islas'' [] (str_replace ''las'' []
                      (str_replace ''los'' [] n3));
               n5 = filter (\<lambda>c. is_ascii_alnum c \<or> is_space c) n4
           in filter (\<lambda>c. \<not> is_space c) (strip n5))"

subsection \<open>The enrichment merge\<close>

text \<open>\<^verbatim>\<open>EnhancedHeritageService.merge_heritage_data\<close>. The dictionary
  \<^verbatim>\<open>merged_sites\<close> keeps its keys in the order of their first insertion, and
  \<^verbatim>\<open>list(merged_sites.values())\<close> reads it in that order: it is an association list,
  \<^const>\<open>AList.update\<close> assigns to a key and \<^const>\<open>AList.map_entry\<close> changes the value
  under a key.\<close>

record enrichment =
  en_source :: string
  en_data :: binding

record merged_site =
  ms_source :: string
  ms_data :: binding
  ms_enrichments :: "enrichment list"

text \<open>\<^verbatim>\<open>site.get('sitio', {}).get('value', '')\<close>, the source key of a binding.\<close>

definition site_id :: "binding \<Rightarrow> string" where
  "site_id site = get_value site ''sitio''"

definition add_primary ::
  "binding \<Rightarrow> (string \<times> merged_site) list \<Rightarrow> (string \<times> merged_site) list" where
  "add_primary site merged_sites =
     (if site_id site \<noteq> []
      then AList.update (site_id site)
             \<lparr>ms_source = ''wikidata_general'', ms_data = site, ms_enrichments = []\<rparr>
             merged_sites
      else merged_sites)"

definition add_enrichment ::
  "string \<Rightarrow> binding \<Rightarrow> (string \<times> merged_site) list \<Rightarrow> (string \<times> merged_site) list" where
  "add_enrichment source_name site merged_sites =
     (if site_id site \<in> set (map fst merged_sites)
      then AList.map_entry (site_id site)
             (\<lambda>e. e\<lparr>ms_enrichments :=
                        ms_enrichments e @ [\<lparr>en_source = source_name, en_data = site\<rparr>]\<rparr>)
             merged_sites
      else merged_sites)"

text \<open>The five arguments are the answers of the five queries; the answer of the
  DBpedia query is fetched and not used.\<close>

definition merge_heritage_data ::
  "binding list option \<Rightarrow> binding list option \<Rightarrow> binding list option \<Rightarrow>
   binding list option \<Rightarrow> binding list option \<Rightarrow> merged_site list" where
  "merge_heritage_data q_general q_dbpedia q_unesco q_archaeological q_religious =
     (let wikidata_general = or_empty q_general;
          dbpedia_data = or_empty q_dbpedia;
          unesco_detailed = or_empty q_unesco;
          archaeological_detailed = or_empty q_archaeological;
          religious_detailed = or_empty q_religious;
          m0 = fold add_primary wikidata_general [];
          m1 = fold (add_enrichment ''unesco'') unesco_detailed m0;
          m2 = fold (add_enrichment ''archaeological'') archaeological_detailed m1;
          m3 = fold (add_enrichment ''religious'') religious_detailed m2
      in map snd m3)"

subsection \<open>The record processor\<close>

record unesco_details =
  u_fecha_inscripcion :: "string option"
  u_criterios :: string
  u_numero_unesco :: string
  u_superficie :: "pyfloat option"
  u_visitantes_anuales :: "pyfloat option"

record arqueologico_details =
  a_cultura :: string
  a_periodo :: string
  a_fecha_descubrimiento :: "string option"
  a_descubridor :: string
  a_elevacion :: "pyfloat option"
  a_estado_conservacion :: string

record religioso_details =
  r_religion :: string
  r_diocesis :: string
  r_dedicacion :: string
  r_capacidad :: "pyfloat option"
  r_fecha_construccion :: "string option"

text \<open>The dictionary \<^verbatim>\<open>detalles_enriquecidos\<close>, with the keys \<^verbatim>\<open>unesco\<close>,
  \<^verbatim>\<open>arqueologico\<close> and \<^verbatim>\<open>religioso\<close>, each there or not.\<close>

record detalles =
  det_unesco :: "unesco_details option"
  det_arqueologico :: "arqueologico_details option"
  det_religioso :: "religioso_details option"

definition process_enrichment :: "enrichment \<Rightarrow> detalles \<Rightarrow> detalles" where
  "process_enrichment e processed =
     (let data = en_data e
      in if en_source e = ''unesco'' then
           processed\<lparr>det_unesco := Some
             \<lparr>u_fecha_inscripcion = parse_date (get_value data ''fechaInscripcion''),
              u_criterios = get_value data ''criterios'',
              u_numero_unesco = get_value data ''numeroUNESCO'',
              u_superficie = parse_float (Some (get_value data ''superficie'')),
              u_visitantes_anuales = parse_float (Some (get_value data ''visitantesAnuales''))\<rparr>\<rparr>
         else if en_source e = ''archaeological'' then
           processed\<lparr>det_arqueologico := Some
             \<lparr>a_cultura = get_value data ''culturaLabel'',
              a_periodo = get_value data ''periodoLabel'',
              a_fecha_descubrimiento = parse_date (get_value data ''fechaDescubrimiento''),
              a_descubridor = get_value data ''descubridorLabel'',
              a_elevacion = parse_float (Some (get_value data ''elevacion'')),
              a_estado_conservacion = get_value data ''estadoLabel''\<rparr>\<rparr>
         else if en_source e = ''religious'' then
           processed\<lparr>det_religioso := Some
             \<lparr>r_religion = get_value data ''religionLabel'',
              r_diocesis = get_value data ''diocesisLabel'',
              r_dedicacion = get_value data ''dedicacionLabel'',
              r_capacidad = parse_float (Some (get_value data ''capacidad'')),
              r_fecha_construccion = parse_date (get_value data ''fechaConstruccion'')\<rparr>\<rparr>
         else processed)"

text \<open>\<^verbatim>\<open>EnhancedHeritageProcessor._process_enrichments\<close>\<close>

definition process_enrichments :: "enrichment list \<Rightarrow> detalles" where
  "process_enrichments enrichments =
     fold process_enrichment enrichments
       \<lparr>det_unesco = None, det_arqueologico = None, det_religioso = None\<rparr>"

record processed_site =
  ps_wikidata_id :: string
  ps_nombre :: string
  ps_descripcion :: string
  ps_tipo_principal :: string
  ps_subtipo :: string
  ps_categoria :: string
  ps_coordenadas :: coordenadas
  ps_provincia :: string
  ps_ciudad :: string
  ps_fecha_creacion :: "string option"
  ps_fecha_inicio :: "string option"
  ps_fecha_fin :: "string option"
  ps_arquitecto :: string
  ps_estilo_arquitectonico :: string
  ps_material :: string
  ps_estatus_patrimonial :: string
  ps_altura :: "pyfloat option"
  ps_area :: "pyfloat option"
  ps_imagen_url :: string
  ps_website :: string
  ps_wikipedia_url :: string
  ps_commons_url :: string
  ps_detalles_enriquecidos :: detalles

definition process_site :: "merged_site \<Rightarrow> processed_site" where
  "process_site site_data =
     (let base_data = ms_data site_data;
          enrichments = ms_enrichments site_data
      in \<lparr>ps_wikidata_id = extract_wikidata_id (get_value base_data ''sitio''),
          ps_nombre = get_value base_data ''sitioLabel'',
          ps_descripcion = get_value base_data ''sitioDescription'',
          ps_tipo_principal = get_value base_data ''tipoLabel'',
          ps_subtipo = get_value base_data ''subtipoLabel'',
          ps_categoria = determine_category base_data,
          ps_coordenadas = parse_coordinates (get_value base_data ''coords''),
          ps_provincia = get_value base_data ''provinciaLabel'',
          ps_ciudad = get_value base_data ''ciudadLabel'',
          ps_fecha_creacion = parse_date (get_value base_data ''fechaCreacion''),
          ps_fecha_inicio = parse_date (get_value base_data ''fechaInicio''),
          ps_fecha_fin = parse_date (get_value base_data ''fechaFin''),
          ps_arquitecto = get_value base_data ''arquitectoLabel'',
          ps_estilo_arquitectonico = get_value base_data ''estiloLabel'',
          ps_material = get_value base_data ''materialLabel'',
          ps_estatus_patrimonial = get_value base_data ''patrimonioLabel'',
          ps_altura = parse_float (Some (get_value base_data ''altura'')),
          ps_area = parse_float (Some (get_value base_data ''area'')),
          ps_imagen_url = get_value base_data ''imagen'',
          ps_website = get_value base_data ''website'',
          ps_wikipedia_url = get_value base_data ''wikipedia'',
          ps_commons_url = get_value base_data ''commons'',
          ps_detalles_enriquecidos = process_enrichments enrichments\<rparr>)"

text \<open>\<^verbatim>\<open>EnhancedHeritageProcessor.process_heritage_sites\<close>, from the answers of the five
  queries.\<close>

definition process_heritage_sites ::
  "binding list option \<Rightarrow> binding list option \<Rightarrow> binding list option \<Rightarrow>
   binding list option \<Rightarrow> binding list option \<Rightarrow> processed_site list" where
  "process_heritage_sites q_general q_dbpedia q_unesco q_archaeological q_religious =
     map process_site
       (merge_heritage_data q_general q_dbpedia q_unesco q_archaeological q_religious)"

subsection \<open>The record store\<close>

text \<open>The four models of \<^verbatim>\<open>models.py\<close>. The columns that all four have are the fields of
  \<open>entidad\<close> (\<open>pk\<close> is the automatic primary key \<^verbatim>\<open>id\<close>); a column declared
  \<^verbatim>\<open>null=True\<close> holds an option. \<open>fecha_actualizacion\<close> is \<^verbatim>\<open>auto_now\<close>: every
  \<^verbatim>\<open>save\<close> sets it to the time of the save. Times are in microseconds.

  Of the constraints of the database only the \<^verbatim>\<open>unique=True\<close> of \<^verbatim>\<open>wikidata_id\<close> is part of
  the model; the store is a value and no statement on it fails for another reason.\<close>

record entidad =
  pk :: nat
  nombre :: string
  latitud :: "pyfloat option"
  longitud :: "pyfloat option"
  imagen_url :: "string option"
  wikidata_id :: string
  fecha_actualizacion :: int

type_synonym canton = "(string \<times> string) list"

type_synonym date = "int \<times> int \<times> int"

record provincia = entidad +
  prov_capital :: "string option"
  prov_poblacion :: "int option"
  prov_area :: "pyfloat option"
  prov_bandera_url :: "string option"
  prov_escudo_url :: "string option"
  prov_wikipedia_url :: "string option"
  prov_cantones :: "canton list option"

record parque = entidad +
  parq_descripcion :: "string option"
  parq_area :: "pyfloat option"
  parq_fecha_establecimiento :: "date option"
  parq_website_url :: "string option"
  parq_provincia :: "string option"

record sitio = entidad +
  sit_tipo :: string
  sit_subtipo :: "string option"
  sit_categoria :: "string option"
  sit_descripcion :: "string option"
  sit_provincia :: "string option"
  sit_ciudad :: "string option"
  sit_fecha_inicio :: "date option"
  sit_fecha_fin :: "date option"
  sit_arquitecto :: "string option"
  sit_estilo_arquitectonico :: "string option"
  sit_material :: "string option"
  sit_estatus_patrimonial :: "string option"
  sit_numero_unesco :: "string option"
  sit_fecha_inscripcion_unesco :: "date option"
  sit_criterios_unesco :: "string option"
  sit_website :: "string option"
  sit_wikipedia_url :: "string option"
  sit_commons_url :: "string option"
  sit_detalles_enriquecidos :: "detalles option"
  sit_estado_conservacion :: "string option"

record plaza = entidad +
  plz_ciudad :: "string option"
  plz_descripcion :: "string option"

record record_store =
  provincias :: "provincia list"
  parques :: "parque list"
  sitios :: "sitio list"
  plazas :: "plaza list"

text \<open>The primary key of a new row.\<close>

definition next_pk :: "'a entidad_scheme list \<Rightarrow> nat" where
  "next_pk rows = Suc (fold max (map pk rows) 0)"

text \<open>Another row holds the \<^verbatim>\<open>wikidata_id\<close> of \<open>obj\<close>.\<close>

definition unique_violation :: "'a entidad_scheme \<Rightarrow> 'a entidad_scheme list \<Rightarrow> bool" where
  "unique_violation obj rows =
     list_ex (\<lambda>r. pk r \<noteq> pk obj \<and> wikidata_id r = wikidata_id obj) rows"

text \<open>\<^verbatim>\<open>Model.objects.get(...)\<close>: the one row of the filter; \<^verbatim>\<open>DoesNotExist\<close> is \<open>Inr None\<close>.\<close>

definition get_row :: "('r \<Rightarrow> bool) \<Rightarrow> 'r list \<Rightarrow> py_exception + 'r option" where
  "get_row P rows =
     (case filter P rows of
        [] \<Rightarrow> Inr None
      | [r] \<Rightarrow> Inr (Some r)
      | r # r' # rs \<Rightarrow> Inl MultipleObjectsReturned)"

text \<open>\<^verbatim>\<open>Model.objects.create(...)\<close> at the time \<open>t\<close>.\<close>

definition insert_row ::
  "int \<Rightarrow> 'a entidad_scheme \<Rightarrow> 'a entidad_scheme list \<Rightarrow>
   py_exception + 'a entidad_scheme list" where
  "insert_row t obj rows =
     (let new = obj\<lparr>pk := next_pk rows, fecha_actualizacion := t\<rparr>
      in if unique_violation new rows then Inl IntegrityError else Inr (rows @ [new]))"

text \<open>\<^verbatim>\<open>obj.save()\<close> of an object read from the table, at the time \<open>t\<close>.\<close>

definition save_row ::
  "int \<Rightarrow> 'a entidad_scheme \<Rightarrow> 'a entidad_scheme list \<Rightarrow>
   py_exception + 'a entidad_scheme list" where
  "save_row t obj rows =
     (let new = obj\<lparr>fecha_actualizacion := t\<rparr>
      in if unique_violation new rows then Inl IntegrityError
         else Inr (map (\<lambda>r. if pk r = pk new then new else r) rows))"

subsection \<open>The staleness check\<close>

text \<open>What a synchronisation reads and writes: the store, the default cache, the clock
  and the setting \<^verbatim>\<open>SPARQL_SYNC_INTERVAL\<close> (seconds; \<open>None\<close> when it is not set).
  \<open>default_cache\<close> holds the entries \<^verbatim>\<open>last_sync_...\<close>, each a time with the time at which
  the entry expires; \<open>dashboard_stats\<close> says whether the cache holds the key
  \<^verbatim>\<open>dashboard_stats\<close>, which the service only deletes. The clock does not advance during
  a call. The answers of the queries are arguments of the runs, so the cache of query
  results is not part of the state.\<close>

record world =
  db :: record_store
  default_cache :: "string \<Rightarrow> (int \<times> int) option"
  dashboard_stats :: bool
  now :: int
  sync_interval :: "int option"

text \<open>The operations of the check take the state and give it back with their answer.\<close>

text \<open>\<^verbatim>\<open>OptimizedDataSyncService._is_database_empty\<close>. Its \<^verbatim>\<open>except\<close> answers
  \<^verbatim>\<open>True\<close> when a count raises, which a count on this store does not.\<close>

definition is_database_empty :: "string \<Rightarrow> world \<Rightarrow> bool \<times> world" where
  "is_database_empty sync_type w =
     (if sync_type \<in> set [''provincias'', ''general''] then (length (provincias (db w)) = 0, w)
      else if sync_type = ''parques'' then (length (parques (db w)) = 0, w)
      else if sync_type = ''sitios'' then (length (sitios (db w)) = 0, w)
      else if sync_type = ''plazas'' then (length (plazas (db w)) = 0, w)
      else (length (provincias (db w)) = 0 \<or> length (parques (db w)) = 0 \<or>
            length (sitios (db w)) = 0 \<or> length (plazas (db w)) = 0, w))"

text \<open>\<^verbatim>\<open>cache.get(key)\<close>: an entry is read until it expires.\<close>

definition cache_get :: "string \<Rightarrow> world \<Rightarrow> int option \<times> world" where
  "cache_get key w =
     (case default_cache w key of
        None \<Rightarrow> (None, w)
      | Some (v, expires) \<Rightarrow> (if now w < expires then Some v else None, w))"

definition timezone_now :: "world \<Rightarrow> int \<times> world" where
  "timezone_now w = (now w, w)"

text \<open>\<^verbatim>\<open>timedelta.total_seconds()\<close> of a difference in microseconds.\<close>

definition total_seconds :: "int \<Rightarrow> rat" where
  "total_seconds d = of_int d / 1000000"

text \<open>\<^verbatim>\<open>OptimizedDataSyncService.should_sync\<close>. A \<^verbatim>\<open>datetime\<close> is true, so
  \<^verbatim>\<open>not last_sync\<close> holds for \<^verbatim>\<open>None\<close> only.\<close>

definition should_sync :: "string \<Rightarrow> world \<Rightarrow> bool \<times> world" where
  "should_sync sync_type w =
     (let (empty, w1) = is_database_empty sync_type w
      in if empty then (True, w1)
         else let (last_sync, w2) = cache_get (''last_sync_'' @ sync_type) w1
              in case last_sync of
                   None \<Rightarrow> (True, w2)
                 | Some t \<Rightarrow>
                     (let (n, w3) = timezone_now w2;
                          time_since_sync = total_seconds (n - t);
                          interval = (case sync_interval w3 of None \<Rightarrow> 21600 | Some i \<Rightarrow> i)
                      in (of_int interval < time_since_sync, w3)))"

text \<open>\<^verbatim>\<open>OptimizedDataSyncService.mark_synced\<close>: the entry lives 86400 seconds.\<close>

definition mark_synced :: "string \<Rightarrow> world \<Rightarrow> world" where
  "mark_synced sync_type w =
     w\<lparr>default_cache :=
          (default_cache w)(''last_sync_'' @ sync_type \<mapsto> (now w, now w + 86400 * 1000000))\<rparr>"

subsection \<open>The synchronisation runs\<close>

text \<open>The result of a run. An entry of \<^verbatim>\<open>errors\<close> is a fixed message, or the report of
  an exception caught in the loop: the kind of entity, the name of the record and the
  exception.\<close>

datatype error_entry = Message string | Failure string string py_exception

record sync_result =
  created :: nat
  updated :: nat
  errors :: "error_entry list"

definition empty_result :: sync_result where
  "empty_result = \<lparr>created = 0, updated = 0, errors = []\<rparr>"

definition add_error :: "error_entry \<Rightarrow> sync_result \<Rightarrow> sync_result" where
  "add_error e r = r\<lparr>errors := errors r @ [e]\<rparr>"

definition inc_created :: "sync_result \<Rightarrow> sync_result" where
  "inc_created r = r\<lparr>created := created r + 1\<rparr>"

definition inc_updated :: "sync_result \<Rightarrow> sync_result" where
  "inc_updated r = r\<lparr>updated := updated r + 1\<rparr>"

text \<open>The state of a loop over the bindings: the table and the result so far.\<close>

record 'r sync_loop =
  sl_rows :: "'r list"
  sl_result :: sync_result

subsubsection \<open>Provinces\<close>

definition add_bandera :: "binding \<Rightarrow> (string \<Rightarrow> string option) \<Rightarrow> (string \<Rightarrow> string option)" where
  "add_bandera item flags =
     (let name = get_value item ''provinciaLabel'';
          flag = get_value item ''banderaSVG''
      in if name \<noteq> [] \<and> flag \<noteq> [] \<and> prefix ''http'' flag \<and> suffix ''.svg'' flag
         then (let flags1 = flags(lower name \<mapsto> flag);
                   normalized = normalize_name name
               in if normalized \<noteq> [] then flags1(normalized \<mapsto> flag) else flags1)
         else flags)"

text \<open>\<^verbatim>\<open>OptimizedDataSyncService._process_banderas\<close>\<close>

definition process_banderas :: "binding list option \<Rightarrow> (string \<Rightarrow> string option)" where
  "process_banderas dbpedia_results = fold add_bandera (or_empty dbpedia_results) Map.empty"

text \<open>\<^verbatim>\<open>OptimizedDataSyncService._get_best_flag_url\<close>\<close>

definition get_best_flag_url :: "binding \<Rightarrow> (string \<Rightarrow> string option) \<Rightarrow> string \<Rightarrow> string" where
  "get_best_flag_url wikidata_item dbpedia_flags nombre' =
     (let wikidata_flag = get_value wikidata_item ''bandera''
      in if wikidata_flag \<noteq> [] then wikidata_flag
         else let normalized = normalize_name nombre';
                  second = (case dbpedia_flags normalized of None \<Rightarrow> [] | Some f \<Rightarrow> f)
              in case dbpedia_flags (lower nombre') of
                   None \<Rightarrow> second
                 | Some f \<Rightarrow> if f \<noteq> [] then f else second)"

text \<open>\<^verbatim>\<open>OptimizedDataSyncService._get_cantones_for_provincia\<close>; the dictionary of the
  cantons is read in its order.\<close>

definition get_cantones_for_provincia ::
  "(string \<times> canton list) list option \<Rightarrow> string \<Rightarrow> canton list" where
  "get_cantones_for_provincia provincia_cantones nombre' =
     (case find (\<lambda>(prov_key, cantones).
                    normalize_name (hd (str_split '' Province'' prov_key)) = normalize_name nombre')
             (or_empty provincia_cantones) of
        None \<Rightarrow> []
      | Some (prov_key, cantones) \<Rightarrow> cantones)"

text \<open>The loop of \<^verbatim>\<open>sync_provincias_concurrent\<close> also collects the objects of
  \<^verbatim>\<open>provincias_to_update\<close>.\<close>

record prov_loop = "provincia sync_loop" +
  pl_to_update :: "provincia list"

text \<open>One binding. The dictionary \<^verbatim>\<open>defaults\<close> is built before \<^verbatim>\<open>get_or_create\<close> is
  called, and \<^verbatim>\<open>_parse_int\<close> is the one call in it that can raise.
  \<^verbatim>\<open>get_or_create(nombre=nombre, defaults=...)\<close> looks the row up by its name.\<close>

definition process_provincia ::
  "int \<Rightarrow> (string \<Rightarrow> string option) \<Rightarrow> (string \<times> canton list) list option \<Rightarrow>
   binding \<Rightarrow> prov_loop \<Rightarrow> prov_loop" where
  "process_provincia t dbpedia_flags provincia_cantones item st =
     (let nombre' = get_value item ''provinciaLabel''
      in if nombre' = [] then st
         else
           let (latitud', longitud') =
                 parse_coordinates_optimized (get_value item ''coordenadas'');
               bandera_url = get_best_flag_url item dbpedia_flags nombre';
               cantones = get_cantones_for_provincia provincia_cantones nombre';
               failed = (\<lambda>e. st\<lparr>sl_result :=
                                   add_error (Failure ''provincia'' nombre' e) (sl_result st)\<rparr>)
           in case parse_int (get_value_opt item ''poblacion'') of
                Inl e \<Rightarrow> failed e
              | Inr poblacion \<Rightarrow>
                  (case get_row (\<lambda>r. nombre r = nombre') (sl_rows st) of
                     Inl e \<Rightarrow> failed e
                   | Inr None \<Rightarrow>
                       (case insert_row t
                               \<lparr>pk = 0, nombre = nombre', latitud = latitud',
                                longitud = longitud',
                                imagen_url = Some (get_value item ''imagen''),
                                wikidata_id = wikidata_id_of item ''provincia'',
                                fecha_actualizacion = t,
                                prov_capital = Some (get_value item ''capitalLabel''),
                                prov_poblacion = poblacion,
                                prov_area = parse_float (get_value_opt item ''area''),
                                prov_bandera_url = Some bandera_url,
                                prov_escudo_url = None,
                                prov_wikipedia_url = None,
                                prov_cantones = Some cantones\<rparr>
                               (sl_rows st) of
                          Inl e \<Rightarrow> failed e
                        | Inr rows \<Rightarrow>
                            st\<lparr>sl_rows := rows, sl_result := inc_created (sl_result st)\<rparr>)
                   | Inr (Some obj) \<Rightarrow>
                       st\<lparr>sl_result := inc_updated (sl_result st),
                          pl_to_update := pl_to_update st @
                            [obj\<lparr>prov_capital := Some (get_value item ''capitalLabel''),
                                 prov_poblacion := poblacion,
                                 prov_area := parse_float (get_value_opt item ''area''),
                                 latitud := latitud',
                                 longitud := longitud',
                                 imagen_url := Some (get_value item ''imagen''),
                                 prov_bandera_url := Some bandera_url,
                                 prov_cantones := Some cantones\<rparr>]\<rparr>))"

text \<open>\<^verbatim>\<open>Provincia.objects.bulk_update(objs, fields, batch_size=50)\<close>: one
  \<^verbatim>\<open>UPDATE\<close> for each batch of 50 objects, which sets each of the eight columns of a row
  by a \<^verbatim>\<open>CASE\<close> over the objects of the batch; the first object with the key of the row
  decides. \<^verbatim>\<open>fecha_actualizacion\<close> is not among the columns.\<close>

function chunks :: "nat \<Rightarrow> 'a list \<Rightarrow> 'a list list" where
  "chunks n xs = (if n = 0 \<or> xs = [] then [] else take n xs # chunks n (drop n xs))"
  by pat_completeness auto
termination
  by (relation "measure (\<lambda>(n, xs). length xs)") auto

definition bulk_update_batch :: "provincia list \<Rightarrow> provincia list \<Rightarrow> provincia list" where
  "bulk_update_batch batch rows =
     map (\<lambda>r. case find (\<lambda>obj. pk obj = pk r) batch of
                 None \<Rightarrow> r
               | Some obj \<Rightarrow>
                   r\<lparr>prov_capital := prov_capital obj,
                     prov_poblacion := prov_poblacion obj,
                     prov_area := prov_area obj,
                     latitud := latitud obj,
                     longitud := longitud obj,
                     imagen_url := imagen_url obj,
                     prov_bandera_url := prov_bandera_url obj,
                     prov_cantones := prov_cantones obj\<rparr>)
         rows"

definition bulk_update :: "provincia list \<Rightarrow> provincia list \<Rightarrow> provincia list" where
  "bulk_update objs rows = fold bulk_update_batch (chunks 50 objs) rows"

text \<open>\<^verbatim>\<open>OptimizedDataSyncService.sync_provincias_concurrent\<close>. The arguments are the
  results of the three concurrent queries (Wikidata, the flags of DBpedia, the cantons),
  \<open>None\<close> for a query that failed or ran out of time.\<close>

definition sync_provincias_concurrent ::
  "binding list option \<Rightarrow> binding list option \<Rightarrow> (string \<times> canton list) list option \<Rightarrow>
   world \<Rightarrow> sync_result \<times> world" where
  "sync_provincias_concurrent q_wikidata q_banderas q_cantones w =
     (let (due, w1) = should_sync ''provincias'' w
      in if \<not> due then (empty_result, w1)
         else if or_empty q_wikidata = []
           then (add_error (Message ''No se pudieron obtener datos de Wikidata'') empty_result, w1)
         else
           let dbpedia_flags = process_banderas q_banderas;
               st = fold (process_provincia (now w1) dbpedia_flags q_cantones)
                      (or_empty q_wikidata)
                      \<lparr>sl_rows = provincias (db w1), sl_result = empty_result,
                       pl_to_update = []\<rparr>;
               rows = (if pl_to_update st \<noteq> [] then bulk_update (pl_to_update st) (sl_rows st)
                       else sl_rows st);
               w2 = w1\<lparr>db := (db w1)\<lparr>provincias := rows\<rparr>\<rparr>;
               w3 = mark_synced ''provincias'' w2;
               w4 = w3\<lparr>dashboard_stats := False\<rparr>
           in (sl_result st, w4))"

subsubsection \<open>National parks\<close>

text \<open>The date of establishment. \<open>fromisoformat\<close> stands for
  \<^verbatim>\<open>datetime.fromisoformat(s).date()\<close> of the standard library, \<open>None\<close> where it raises
  \<^verbatim>\<open>ValueError\<close>; the strings it accepts depend on the version of Python.\<close>

definition parse_fecha_establecimiento :: "(string \<Rightarrow> date option) \<Rightarrow> string \<Rightarrow> date option" where
  "parse_fecha_establecimiento fromisoformat fecha_str =
     (if fecha_str = [] then None else fromisoformat (str_replace ''Z'' ''+00:00'' fecha_str))"

text \<open>One binding: \<^verbatim>\<open>ParqueNacional.objects.update_or_create(nombre=nombre, defaults=...)\<close>
  looks the row up by its name, and writes every field of \<^verbatim>\<open>defaults\<close>,
  \<^verbatim>\<open>wikidata_id\<close> among them, into the row it finds.\<close>

definition process_parque ::
  "(string \<Rightarrow> date option) \<Rightarrow> int \<Rightarrow> binding \<Rightarrow> parque sync_loop \<Rightarrow> parque sync_loop" where
  "process_parque fromisoformat t item st =
     (let nombre' = get_value item ''parqueLabel''
      in if nombre' = [] then st
         else
           let (latitud', longitud') = parse_coordinates_optimized (get_value item ''coords'');
               fecha_establecimiento =
                 parse_fecha_establecimiento fromisoformat (get_value item ''establecido'');
               failed = (\<lambda>e. st\<lparr>sl_result :=
                                   add_error (Failure ''parque'' nombre' e) (sl_result st)\<rparr>)
           in case get_row (\<lambda>r. nombre r = nombre') (sl_rows st) of
                Inl e \<Rightarrow> failed e
              | Inr None \<Rightarrow>
                  (case insert_row t
                          \<lparr>pk = 0, nombre = nombre', latitud = latitud', longitud = longitud',
                           imagen_url = Some (get_value item ''imagen''),
                           wikidata_id = wikidata_id_of item ''parque'',
                           fecha_actualizacion = t,
                           parq_descripcion = Some (get_value item ''descripcion''),
                           parq_area = parse_float (get_value_opt item ''area''),
                           parq_fecha_establecimiento = fecha_establecimiento,
                           parq_website_url = None,
                           parq_provincia = None\<rparr>
                          (sl_rows st) of
                     Inl e \<Rightarrow> failed e
                   | Inr rows \<Rightarrow> st\<lparr>sl_rows := rows, sl_result := inc_created (sl_result st)\<rparr>)
              | Inr (Some obj) \<Rightarrow>
                  (case save_row t
                          (obj\<lparr>parq_descripcion := Some (get_value item ''descripcion''),
                               parq_area := parse_float (get_value_opt item ''area''),
                               parq_fecha_establecimiento := fecha_establecimiento,
                               latitud := latitud',
                               longitud := longitud',
                               imagen_url := Some (get_value item ''imagen''),
                               wikidata_id := wikidata_id_of item ''parque''\<rparr>)
                          (sl_rows st) of
                     Inl e \<Rightarrow> failed e
                   | Inr rows \<Rightarrow> st\<lparr>sl_rows := rows, sl_result := inc_updated (sl_result st)\<rparr>))"

text \<open>\<^verbatim>\<open>OptimizedDataSyncService.sync_parques_nacionales\<close>\<close>

definition sync_parques_nacionales ::
  "(string \<Rightarrow> date option) \<Rightarrow> binding list option \<Rightarrow> world \<Rightarrow> sync_result \<times> world" where
  "sync_parques_nacionales fromisoformat q_wikidata w =
     (let (due, w1) = should_sync ''parques'' w
      in if \<not> due then (empty_result, w1)
         else if or_empty q_wikidata = []
           then (add_error (Message ''No se pudieron obtener datos de parques desde Wikidata'')
                   empty_result, w1)
         else
           let st = fold (process_parque fromisoformat (now w1)) (or_empty q_wikidata)
                      \<lparr>sl_rows = parques (db w1), sl_result = empty_result\<rparr>;
               w2 = w1\<lparr>db := (db w1)\<lparr>parques := sl_rows st\<rparr>\<rparr>;
               w3 = mark_synced ''parques'' w2
           in (sl_result st, w3))"

subsubsection \<open>Heritage sites\<close>

text \<open>The loop of \<^verbatim>\<open>sync_sitios_patrimoniales_enhanced\<close> has one more variable. The
  statement \<^verbatim>\<open>from datetime import datetime\<close> stands inside the block of the creation
  date, which makes \<^verbatim>\<open>datetime\<close> a local name of the function; the module imports no
  \<^verbatim>\<open>datetime\<close>. Until a site with a creation date has run the statement, the name is
  unbound, \<^verbatim>\<open>datetime.fromisoformat\<close> raises \<^verbatim>\<open>UnboundLocalError\<close> in the two later blocks,
  and their \<^verbatim>\<open>except: pass\<close> leaves the date \<^verbatim>\<open>None\<close>.\<close>

record sitio_loop = "sitio sync_loop" +
  sl_datetime_bound :: bool

definition truthy :: "string option \<Rightarrow> bool" where
  "truthy v = (case v of None \<Rightarrow> False | Some s \<Rightarrow> s \<noteq> [])"

definition parse_iso_date :: "bool \<Rightarrow> (string \<Rightarrow> date option) \<Rightarrow> string option \<Rightarrow> date option" where
  "parse_iso_date bound fromisoformat v =
     (case v of
        None \<Rightarrow> None
      | Some s \<Rightarrow> if s = [] then None else if bound then fromisoformat s else None)"

definition tipo_mapping :: "(string \<times> string) list" where
  "tipo_mapping =
     [(''UNESCO'', ''UNESCO''), (''ARQUEOLOGICO'', ''ARQUEOLOGICO''),
      (''HISTORICO'', ''HISTORICO''), (''RELIGIOSO'', ''RELIGIOSO''), (''MUSEO'', ''MUSEO''),
      (''PATRIMONIAL'', ''HISTORICO'')]"

text \<open>One processed site. \<^verbatim>\<open>SitioPatrimonial.objects.update_or_create\<close> looks the row up
  by \<^verbatim>\<open>wikidata_id\<close>. Its \<^verbatim>\<open>defaults\<close> name \<^verbatim>\<open>fecha_creacion\<close>, \<^verbatim>\<open>altura\<close>, \<^verbatim>\<open>area\<close>,
  \<^verbatim>\<open>superficie\<close>, \<^verbatim>\<open>visitantes_anuales\<close>, \<^verbatim>\<open>elevacion\<close> and \<^verbatim>\<open>capacidad\<close>, which are no fields
  of the model: where no row is found, Django checks the names before it inserts and raises
  \<^verbatim>\<open>FieldError\<close>; where a row is found, it sets every name as an attribute of the object
  and saves the columns.\<close>

definition process_sitio ::
  "(string \<Rightarrow> date option) \<Rightarrow> int \<Rightarrow> processed_site \<Rightarrow> sitio_loop \<Rightarrow> sitio_loop" where
  "process_sitio fromisoformat t site_data st =
     (let wikidata_id' = ps_wikidata_id site_data
      in if wikidata_id' = [] then st
         else
           let coords = ps_coordenadas site_data;
               categoria = upper (ps_categoria site_data);
               tipo = (case map_of tipo_mapping categoria of None \<Rightarrow> ''HISTORICO'' | Some v \<Rightarrow> v);
               bound = (sl_datetime_bound st \<or> truthy (ps_fecha_creacion site_data));
               fecha_inicio = parse_iso_date bound fromisoformat (ps_fecha_inicio site_data);
               detalles_unesco = det_unesco (ps_detalles_enriquecidos site_data);
               fecha_inscripcion_unesco =
                 parse_iso_date bound fromisoformat
                   (case detalles_unesco of None \<Rightarrow> None | Some u \<Rightarrow> u_fecha_inscripcion u);
               detalles_arqueologico = det_arqueologico (ps_detalles_enriquecidos site_data);
               st1 = st\<lparr>sl_datetime_bound := bound\<rparr>;
               failed = (\<lambda>e. st1\<lparr>sl_result :=
                                   add_error (Failure ''sitio'' (ps_nombre site_data) e)
                                     (sl_result st1)\<rparr>)
           in case get_row (\<lambda>r. wikidata_id r = wikidata_id') (sl_rows st1) of
                Inl e \<Rightarrow> failed e
              | Inr None \<Rightarrow> failed FieldError
              | Inr (Some obj) \<Rightarrow>
                  (case save_row t
                          (obj\<lparr>nombre := ps_nombre site_data,
                               sit_tipo := tipo,
                               sit_subtipo := Some (ps_subtipo site_data),
                               sit_categoria := Some (ps_categoria site_data),
                               sit_descripcion := Some (ps_descripcion site_data),
                               latitud := co_latitud coords,
                               longitud := co_longitud coords,
                               sit_provincia := Some (ps_provincia site_data),
                               sit_ciudad := Some (ps_ciudad site_data),
                               sit_fecha_inicio := fecha_inicio,
                               sit_fecha_inscripcion_unesco := fecha_inscripcion_unesco,
                               sit_arquitecto := Some (ps_arquitecto site_data),
                               sit_estilo_arquitectonico :=
                                 Some (ps_estilo_arquitectonico site_data),
                               sit_material := Some (ps_material site_data),
                               sit_estatus_patrimonial := Some (ps_estatus_patrimonial site_data),
                               sit_numero_unesco :=
                                 Some (case detalles_unesco of
                                         None \<Rightarrow> [] | Some u \<Rightarrow> u_numero_unesco u),
                               sit_criterios_unesco :=
                                 Some (case detalles_unesco of
                                         None \<Rightarrow> [] | Some u \<Rightarrow> u_criterios u),
                               sit_estado_conservacion :=
                                 Some (case detalles_arqueologico of
                                         None \<Rightarrow> [] | Some a \<Rightarrow> a_estado_conservacion a),
                               imagen_url := Some (ps_imagen_url site_data),
                               sit_website := Some (ps_website site_data),
                               sit_wikipedia_url := Some (ps_wikipedia_url site_data),
                               sit_commons_url := Some (ps_commons_url site_data),
                               sit_detalles_enriquecidos :=
                                 Some (ps_detalles_enriquecidos site_data)\<rparr>)
                          (sl_rows st1) of
                     Inl e \<Rightarrow> failed e
                   | Inr rows \<Rightarrow>
                       st1\<lparr>sl_rows := rows, sl_result := inc_updated (sl_result st1)\<rparr>))"

text \<open>\<^verbatim>\<open>OptimizedDataSyncService.sync_sitios_patrimoniales_enhanced\<close>, from the answers of
  the five queries of the heritage service. No step of the processing raises on
  bindings, so the outer \<^verbatim>\<open>except\<close> is not reached. The answer of the primary query is
  not tested: the run goes through the loop over the processed sites, empty or not, and
  then to \<^verbatim>\<open>mark_synced\<close>.\<close>

definition sync_sitios_patrimoniales_enhanced ::
  "(string \<Rightarrow> date option) \<Rightarrow> binding list option \<Rightarrow> binding list option \<Rightarrow>
   binding list option \<Rightarrow> binding list option \<Rightarrow> binding list option \<Rightarrow>
   world \<Rightarrow> sync_result \<times> world" where
  "sync_sitios_patrimoniales_enhanced fromisoformat q_general q_dbpedia q_unesco
       q_archaeological q_religious w =
     (let (due, w1) = should_sync ''sitios'' w
      in if \<not> due then (empty_result, w1)
         else
           let enhanced_sites =
                 process_heritage_sites q_general q_dbpedia q_unesco q_archaeological q_religious;
               st = fold (process_sitio fromisoformat (now w1)) enhanced_sites
                      \<lparr>sl_rows = sitios (db w1), sl_result = empty_result,
                       sl_datetime_bound = False\<rparr>;
               w2 = w1\<lparr>db := (db w1)\<lparr>sitios := sl_rows st\<rparr>\<rparr>;
               w3 = mark_synced ''sitios'' w2
           in (sl_result st, w3))"

subsubsection \<open>Plazas\<close>

text \<open>One binding. \<^verbatim>\<open>Plaza.objects.update_or_create(wikidata_id=..., defaults=plaza_data)\<close>
  looks the row up by \<^verbatim>\<open>wikidata_id\<close>; the key \<^verbatim>\<open>None\<close> of a binding without
  \<^verbatim>\<open>plaza\<close> finds no row, the column being \<^verbatim>\<open>NOT NULL\<close>. \<^verbatim>\<open>plaza_data\<close> names
  \<^verbatim>\<open>provincia\<close>, which is no field of \<^verbatim>\<open>Plaza\<close>: where no row is found Django raises
  \<^verbatim>\<open>FieldError\<close> before it inserts.\<close>

definition process_plaza :: "int \<Rightarrow> binding \<Rightarrow> plaza sync_loop \<Rightarrow> plaza sync_loop" where
  "process_plaza t item st =
     (let nombre' = get_value item ''plazaLabel''
      in if nombre' = [] then st
         else
           let (latitud', longitud') =
                 parse_coordinates_optimized (get_value item ''coordenadas'');
               failed = (\<lambda>e. st\<lparr>sl_result :=
                                   add_error (Failure ''plaza'' nombre' e) (sl_result st)\<rparr>)
           in if \<not> has_term item ''plaza'' then failed FieldError
              else
                let wikidata_id' = last (str_split ''/'' (get_value item ''plaza''))
                in case get_row (\<lambda>r. wikidata_id r = wikidata_id') (sl_rows st) of
                     Inl e \<Rightarrow> failed e
                   | Inr None \<Rightarrow> failed FieldError
                   | Inr (Some obj) \<Rightarrow>
                       (case save_row t
                               (obj\<lparr>nombre := nombre',
                                    plz_ciudad := Some (get_value item ''ciudadLabel''),
                                    plz_descripcion := Some (get_value item ''descripcion''),
                                    latitud := latitud',
                                    longitud := longitud',
                                    imagen_url := Some (get_value item ''imagen''),
                                    wikidata_id := wikidata_id'\<rparr>)
                               (sl_rows st) of
                          Inl e \<Rightarrow> failed e
                        | Inr rows \<Rightarrow>
                            st\<lparr>sl_rows := rows, sl_result := inc_updated (sl_result st)\<rparr>))"

text \<open>\<^verbatim>\<open>OptimizedDataSyncService.sync_plazas_optimized\<close>\<close>

definition sync_plazas_optimized :: "binding list option \<Rightarrow> world \<Rightarrow> sync_result \<times> world" where
  "sync_plazas_optimized q_wikidata w =
     (let (due, w1) = should_sync ''plazas'' w
      in if \<not> due then (empty_result, w1)
         else if or_empty q_wikidata = []
           then (add_error (Message ''No se pudieron obtener datos de plazas desde Wikidata'')
                   empty_result, w1)
         else
           let st = fold (process_plaza (now w1)) (or_empty q_wikidata)
                      \<lparr>sl_rows = plazas (db w1), sl_result = empty_result\<rparr>;
               w2 = w1\<lparr>db := (db w1)\<lparr>plazas := sl_rows st\<rparr>\<rparr>;
               w3 = mark_synced ''plazas'' w2
           in (sl_result st, w3))"

subsection \<open>The clean-up pass\<close>

text \<open>The filters \<^verbatim>\<open>column__lt=c\<close> and \<^verbatim>\<open>column__gt=c\<close> on a nullable float column: a
  \<^verbatim>\<open>NULL\<close> matches neither. A NaN compares as in Python, false both ways.\<close>

definition lt_filter :: "pyfloat option \<Rightarrow> rat \<Rightarrow> bool" where
  "lt_filter v c =
     (case v of
        None \<Rightarrow> False
      | Some (Finite r) \<Rightarrow> r < c
      | Some NInf \<Rightarrow> True
      | Some PInf \<Rightarrow> False
      | Some NaN \<Rightarrow> False)"

definition gt_filter :: "pyfloat option \<Rightarrow> rat \<Rightarrow> bool" where
  "gt_filter v c =
     (case v of
        None \<Rightarrow> False
      | Some (Finite r) \<Rightarrow> c < r
      | Some NInf \<Rightarrow> False
      | Some PInf \<Rightarrow> True
      | Some NaN \<Rightarrow> False)"

text \<open>\<^verbatim>\<open>queryset.filter(P).delete()[0]\<close>: the number of rows deleted, and the table
  without them. No model has a relation, so nothing else is deleted.\<close>

definition delete_where :: "('r \<Rightarrow> bool) \<Rightarrow> 'r list \<Rightarrow> nat \<times> 'r list" where
  "delete_where P rows = (length (filter P rows), filter (\<lambda>r. \<not> P r) rows)"

text \<open>A run of deletions on one table, each count added to \<^verbatim>\<open>cleaned_count\<close>.\<close>

definition delete_step :: "('r \<Rightarrow> bool) \<Rightarrow> nat \<times> 'r list \<Rightarrow> nat \<times> 'r list" where
  "delete_step P acc =
     (let (count, rows) = delete_where P (snd acc) in (fst acc + count, rows))"

definition delete_steps :: "('r \<Rightarrow> bool) list \<Rightarrow> nat \<times> 'r list \<Rightarrow> nat \<times> 'r list" where
  "delete_steps steps acc = fold delete_step steps acc"

definition ecuador_provinces :: "string list" where
  "ecuador_provinces =
     [''Q220451'', ''Q261165'', ''Q321729'', ''Q335471'', ''Q238492'', ''Q241140'',
      ''Q466019'', ''Q335526'', ''Q335464'', ''Q321863'', ''Q504238'', ''Q504260'',
      ''Q504666'', ''Q549522'', ''Q211900'', ''Q499475'', ''Q214814'', ''Q272586'',
      ''Q475038'', ''Q504252'', ''Q1124125'', ''Q1123208'', ''Q499456'', ''Q744670'']"

text \<open>The deletions on the provinces: \<^verbatim>\<open>nombre__isnull=True\<close> (the column is
  \<^verbatim>\<open>NOT NULL\<close>, no row matches), \<^verbatim>\<open>nombre__exact=''\<close>, and
  \<^verbatim>\<open>exclude(wikidata_id__in=ecuador_provinces)\<close>.\<close>

definition provincia_steps :: "(provincia \<Rightarrow> bool) list" where
  "provincia_steps =
     [\<lambda>r. False,
      \<lambda>r. nombre r = [],
      \<lambda>r. wikidata_id r \<notin> set ecuador_provinces]"

text \<open>The six deletions that the pass repeats on parks, heritage sites and plazas:
  the two on the name, then \<^verbatim>\<open>latitud__lt=-5.0\<close>, \<^verbatim>\<open>latitud__gt=2.0\<close>,
  \<^verbatim>\<open>longitud__lt=-92.0\<close> and \<^verbatim>\<open>longitud__gt=-75.0\<close>.\<close>

definition bounding_box_steps :: "('a entidad_scheme \<Rightarrow> bool) list" where
  "bounding_box_steps =
     [\<lambda>r. False,
      \<lambda>r. nombre r = [],
      \<lambda>r. lt_filter (latitud r) (- 5),
      \<lambda>r. gt_filter (latitud r) 2,
      \<lambda>r. lt_filter (longitud r) (- 92),
      \<lambda>r. gt_filter (longitud r) (- 75)]"

text \<open>\<^verbatim>\<open>Command.clean_irrelevant_data\<close>: the total that the command prints, and the
  store it leaves.\<close>

definition clean_irrelevant_data :: "record_store \<Rightarrow> nat \<times> record_store" where
  "clean_irrelevant_data s =
     (let (c1, provincias') = delete_steps provincia_steps (0, provincias s);
          (c2, parques') = delete_steps bounding_box_steps (c1, parques s);
          (c3, sitios') = delete_steps bounding_box_steps (c2, sitios s);
          (cleaned_count, plazas') = delete_steps bounding_box_steps (c3, plazas s)
      in (cleaned_count,
          \<lparr>provincias = provincias', parques = parques', sitios = sitios',
           plazas = plazas'\<rparr>))"

subsection \<open>Notions of the statements\<close>

text \<open>The invariant of the entries: an entry of the dictionary is a primary record
  under its own source key, and its enrichments have that key.\<close>

definition entry_ok :: "binding set \<Rightarrow> string \<times> merged_site \<Rightarrow> bool" where
  "entry_ok S ke \<longleftrightarrow>
     ms_source (snd ke) = ''wikidata_general'' \<and> ms_data (snd ke) \<in> S \<and>
     site_id (ms_data (snd ke)) = fst ke \<and>
     (\<forall>x \<in> set (ms_enrichments (snd ke)). site_id (en_data x) = fst ke)"

text \<open>The number of records of an entity type, the entity types, and the interval between
  two synchronisations as \<open>should_sync\<close> reads it from the settings.\<close>

definition row_count :: "string \<Rightarrow> record_store \<Rightarrow> nat" where
  "row_count entity_type s =
     (if entity_type = ''provincias'' then length (provincias s)
      else if entity_type = ''parques'' then length (parques s)
      else if entity_type = ''sitios'' then length (sitios s)
      else length (plazas s))"

definition entity_types :: "string list" where
  "entity_types = [''provincias'', ''parques'', ''sitios'', ''plazas'']"

definition interval_of :: "world \<Rightarrow> int" where
  "interval_of w = (case sync_interval w of None \<Rightarrow> 21600 | Some i \<Rightarrow> i)"

text \<open>A coordinate outside an interval, an absent one being outside of nothing, and a
  record outside the box of the clean-up pass.\<close>

definition outside :: "pyfloat option \<Rightarrow> rat \<Rightarrow> rat \<Rightarrow> bool" where
  "outside v lo hi =
     (case v of
        None \<Rightarrow> False
      | Some (Finite x) \<Rightarrow> x < lo \<or> hi < x
      | Some PInf \<Rightarrow> True
      | Some NInf \<Rightarrow> True
      | Some NaN \<Rightarrow> False)"

definition outside_box :: "'a entidad_scheme \<Rightarrow> bool" where
  "outside_box r \<longleftrightarrow> outside (latitud r) (- 5) 2 \<or> outside (longitud r) (- 92) (- 75)"

section \<open>Verified properties\<close>

subsection \<open>Date parsing\<close>

lemma sublist_single_iff: "sublist [c] s \<longleftrightarrow> c \<in> set s"
  by (induction s) (auto simp: sublist_Cons_right)

lemma hd_str_split_from:
  "hd (str_split_from [c] cur s) = cur @ takeWhile (\<lambda>x. x \<noteq> c) s"
  by (induction s arbitrary: cur) auto

lemma hd_str_split: "hd (str_split [c] s) = takeWhile (\<lambda>x. x \<noteq> c) s"
  by (simp add: str_split_def hd_str_split_from)

text \<open>Claim C9 says that date parsing answers no value on any parse error and never
  answers a raw string that is no date. \<^const>\<open>parse_date\<close> does not validate: a text
  that is no date comes back as it is, or cut to ten characters.\<close>

theorem parse_date_raw_string_counterexample:
  "parse_date ''hello'' = Some ''hello'' \<and>
   parse_date ''not-a-date-at-all'' = Some ''not-a-date''"
  by code_simp

text \<open>Claim C9, amended. \<^const>\<open>parse_date\<close> is total (it never raises), answers no value
  for the empty string only, and otherwise truncates without validating: the text before
  the first \<^verbatim>\<open>T\<close> when there is one, else the first ten characters; so an ISO-8601 date
  or date-time is cut to its date. The date of establishment of a park is the date of
  \<^verbatim>\<open>datetime.fromisoformat\<close>, and no value where the string is empty or
  \<^verbatim>\<open>fromisoformat\<close> rejects it.\<close>

theorem parse_date_truncates_without_validation:
  "(parse_date s = None \<longleftrightarrow> s = []) \<and>
   (CHR ''T'' \<in> set s \<longrightarrow> parse_date s = Some (takeWhile (\<lambda>c. c \<noteq> CHR ''T'') s)) \<and>
   (s \<noteq> [] \<and> CHR ''T'' \<notin> set s \<longrightarrow> parse_date s = Some (take 10 s)) \<and>
   (parse_fecha_establecimiento fromisoformat s =
      (if s = [] then None else fromisoformat (str_replace ''Z'' ''+00:00'' s)))"
  by (auto simp: parse_date_def sublist_single_iff hd_str_split parse_fecha_establecimiento_def)

theorem parse_date_truncates_witness:
  "parse_date ''2008-07-01T00:00:00Z'' = Some ''2008-07-01'' \<and>
   parse_date ''2008-07-01'' = Some ''2008-07-01''"
  using parse_date_truncates_without_validation [of "''2008-07-01T00:00:00Z''"]
        parse_date_truncates_without_validation [of "''2008-07-01''"]
  by simp

subsection \<open>Category determination\<close>

text \<open>The chain of tests of \<^const>\<open>determine_category\<close>, as \<^const>\<open>first_match\<close> computes
  it from the ordered rules.\<close>

lemma first_match_category_rules:
  "first_match category_rules ''Patrimonial'' t =
     (if sublist ''unesco'' t \<or> sublist ''patrimonio mundial'' t then ''UNESCO''
      else if sublist (''arqueol'' @ [CHR 0xF3] @ ''g'') t \<or> sublist ''arqueolog'' t
        then ''Arqueol'' @ [CHR 0xF3] @ ''gico''
      else if sublist ''iglesia'' t \<or> sublist ''catedral'' t \<or> sublist ''religios'' t
        then ''Religioso''
      else if sublist ''museo'' t then ''Museo''
      else if sublist (''hist'' @ [CHR 0xF3] @ ''ric'') t \<or> sublist ''monument'' t
        then ''Hist'' @ [CHR 0xF3] @ ''rico''
      else ''Patrimonial'')"
  by (simp add: category_rules_def group_matches_def)

text \<open>A keyword found in the label is found in the lower-cased label: lowering is
  character by character, and the keywords are in lower case.\<close>

lemma sublist_map: "sublist xs ys \<Longrightarrow> sublist (map f xs) (map f ys)"
proof -
  assume "sublist xs ys"
  then obtain ps ss where "ys = ps @ xs @ ss" by (auto simp: sublist_def)
  then have "map f ys = map f ps @ map f xs @ map f ss" by simp
  then show ?thesis by (metis sublist_appendI)
qed

lemma sublist_lower: "sublist k s \<Longrightarrow> sublist (lower k) (lower s)"
  by (simp add: lower_def sublist_map)

text \<open>Claim C3. The category is the first match of the ordered keyword groups (UNESCO
  or world heritage, archaeological, religious, museum, historic or monument) in the
  lower-cased type label, with the fallback \<^verbatim>\<open>Patrimonial\<close>; it depends on the label
  up to letter case only; and a label that holds both \<^verbatim>\<open>museo\<close> and
  \<^verbatim>\<open>hist\<close>\<open>\<acute>\<close>\<^verbatim>\<open>orico\<close>, in any letter case, and no keyword of the three groups before, is
  of the category \<^verbatim>\<open>Museo\<close>.\<close>

theorem determine_category_first_match:
  "determine_category data =
     first_match category_rules ''Patrimonial'' (lower (get_value data ''tipoLabel'')) \<and>
   (lower (get_value data ''tipoLabel'') = lower (get_value data' ''tipoLabel'') \<longrightarrow>
      determine_category data = determine_category data') \<and>
   (sublist ''museo'' (lower (get_value data ''tipoLabel'')) \<and>
    sublist (''hist'' @ [CHR 0xF3] @ ''rico'') (lower (get_value data ''tipoLabel'')) \<and>
    \<not> sublist ''unesco'' (lower (get_value data ''tipoLabel'')) \<and>
    \<not> sublist ''patrimonio mundial'' (lower (get_value data ''tipoLabel'')) \<and>
    \<not> sublist (''arqueol'' @ [CHR 0xF3] @ ''g'') (lower (get_value data ''tipoLabel'')) \<and>
    \<not> sublist ''arqueolog'' (lower (get_value data ''tipoLabel'')) \<and>
    \<not> sublist ''iglesia'' (lower (get_value data ''tipoLabel'')) \<and>
    \<not> sublist ''catedral'' (lower (get_value data ''tipoLabel'')) \<and>
    \<not> sublist ''religios'' (lower (get_value data ''tipoLabel'')) \<longrightarrow>
      determine_category data = ''Museo'')"
proof (intro conjI impI)
  show "determine_category data =
     first_match category_rules ''Patrimonial'' (lower (get_value data ''tipoLabel''))"
    by (simp only: first_match_category_rules determine_category_def Let_def)
  show "determine_category data = determine_category data'"
    if "lower (get_value data ''tipoLabel'') = lower (get_value data' ''tipoLabel'')"
    using that by (simp add: determine_category_def)
  show "determine_category data = ''Museo''"
    if "sublist ''museo'' (lower (get_value data ''tipoLabel'')) \<and>
    sublist (''hist'' @ [CHR 0xF3] @ ''rico'') (lower (get_value data ''tipoLabel'')) \<and>
    \<not> sublist ''unesco'' (lower (get_value data ''tipoLabel'')) \<and>
    \<not> sublist ''patrimonio mundial'' (lower (get_value data ''tipoLabel'')) \<and>
    \<not> sublist (''arqueol'' @ [CHR 0xF3] @ ''g'') (lower (get_value data ''tipoLabel'')) \<and>
    \<not> sublist ''arqueolog'' (lower (get_value data ''tipoLabel'')) \<and>
    \<not> sublist ''iglesia'' (lower (get_value data ''tipoLabel'')) \<and>
    \<not> sublist ''catedral'' (lower (get_value data ''tipoLabel'')) \<and>
    \<not> sublist ''religios'' (lower (get_value data ''tipoLabel''))"
    using that by (simp add: determine_category_def)
qed

theorem determine_category_witness:
  "determine_category
     [(''tipoLabel'', [(''value'', ''Museo Hist'' @ [CHR 0xF3] @ ''rico'')])] = ''Museo'' \<and>
   determine_category [(''tipoLabel'', [(''value'', ''MUSEO'')])] =
     determine_category [(''tipoLabel'', [(''value'', ''museo'')])]"
proof -
  let ?d = "[(''tipoLabel'', [(''value'', ''Museo Hist'' @ [CHR 0xF3] @ ''rico'')])]"
  let ?t = "lower (get_value ?d ''tipoLabel'')"
  have 1: "sublist ''museo'' ?t" by code_simp
  have 2: "sublist (''hist'' @ [CHR 0xF3] @ ''rico'') ?t" by code_simp
  have 3: "\<not> sublist ''unesco'' ?t" "\<not> sublist ''patrimonio mundial'' ?t"
    "\<not> sublist (''arqueol'' @ [CHR 0xF3] @ ''g'') ?t" "\<not> sublist ''arqueolog'' ?t"
    "\<not> sublist ''iglesia'' ?t" "\<not> sublist ''catedral'' ?t" "\<not> sublist ''religios'' ?t"
    by code_simp+
  have 4: "lower (get_value [(''tipoLabel'', [(''value'', ''MUSEO'')])] ''tipoLabel'') =
           lower (get_value [(''tipoLabel'', [(''value'', ''museo'')])] ''tipoLabel'')"
    by code_simp
  show ?thesis
    using determine_category_first_match [of ?d ?d] 1 2 3
      determine_category_first_match [of "[(''tipoLabel'', [(''value'', ''MUSEO'')])]"
        "[(''tipoLabel'', [(''value'', ''museo'')])]"] 4
    by blast
qed

subsection \<open>The text normaliser\<close>

text \<open>The two names of the specification's example get the same key.\<close>

lemma normalize_name_guayas:
  "normalize_name ''Provincia del Guayas'' = ''guayas'' \<and>
   normalize_name ''Guayas Province'' = ''guayas''"
  by code_simp

text \<open>Claim C8 asks that two names which differ only in occurrences of the stop words,
  in letter case, diacritics, punctuation and white space get the same key.
  \<^const>\<open>normalize_name\<close> deletes \<^verbatim>\<open>la\<close> before it looks for \<^verbatim>\<open>las\<close> and
  \<^verbatim>\<open>islas\<close>, so neither of the two is found in a name that holds it: the names with
  and without the stop word get different keys.\<close>

theorem normalize_name_islas_evaluation:
  "normalize_name ''Islas Galapagos'' = ''issgapagos'' \<and>
   normalize_name ''Galapagos'' = ''gapagos'' \<and>
   normalize_name ''Las Lajas'' = ''sjas'' \<and>
   normalize_name ''Lajas'' = ''jas''"
  by code_simp

subsection \<open>Coordinate parsing\<close>

text \<open>Replacement and splitting on a well-formed string.\<close>

lemma str_replace_absent:
  "old \<noteq> [] \<Longrightarrow> hd old \<notin> set s \<Longrightarrow> str_replace old new s = s"
proof (induction s)
  case Nil then show ?case by simp
next
  case (Cons c cs)
  then have "\<not> prefix old (c # cs)" by (cases old) auto
  with Cons show ?case by simp
qed

lemma str_replace_at_prefix:
  "old \<noteq> [] \<Longrightarrow> str_replace old new (old @ s) = new @ str_replace old new s"
  by (cases old) auto

lemma str_replace_single_delete: "str_replace [c] [] s = filter (\<lambda>x. x \<noteq> c) s"
  by (induction s) auto

lemma split_ws_from_token:
  "\<forall>c \<in> set a. \<not> is_space c \<Longrightarrow> split_ws_from cur (a @ rest) = split_ws_from (cur @ a) rest"
  by (induction a arbitrary: cur) auto

lemma split_ws_two_tokens:
  assumes "a \<noteq> []" "b \<noteq> []" "\<forall>c \<in> set a. \<not> is_space c" "\<forall>c \<in> set b. \<not> is_space c"
  shows "split_ws (a @ '' '' @ b) = [a, b]"
proof -
  have sp: "is_space (CHR '' '')" by (simp add: is_space_def)
  have "split_ws (a @ '' '' @ b) = split_ws_from a ('' '' @ b)"
    using split_ws_from_token [OF assms(3), of "[]" "'' '' @ b"] by (simp add: split_ws_def)
  also have "\<dots> = a # split_ws_from [] b" using assms(1) sp by simp
  also have "split_ws_from [] b = split_ws_from b []"
    using split_ws_from_token [OF assms(4), of "[]" "[]"] by simp
  also have "\<dots> = [b]" using assms(2) by simp
  finally show ?thesis .
qed

lemma set_dropWhile_keeps: "c \<in> set xs \<Longrightarrow> \<not> P c \<Longrightarrow> c \<in> set (dropWhile P xs)"
  by (induction xs) auto

lemma set_strip_with_keeps: "c \<in> set xs \<Longrightarrow> \<not> sp c \<Longrightarrow> c \<in> set (strip_with sp xs)"
  by (simp add: strip_with_def set_dropWhile_keeps)

lemma strip_underscores_keeps:
  "strip_underscores prev t = Some u \<Longrightarrow> c \<in> set t \<Longrightarrow> c \<noteq> CHR ''_'' \<Longrightarrow> c \<in> set u"
  by (induction t arbitrary: prev u) (auto split: if_splits)

lemma split_sign_keeps:
  "split_sign v = (neg, r) \<Longrightarrow> c \<in> set v \<Longrightarrow> c \<noteq> CHR ''-'' \<Longrightarrow> c \<noteq> CHR ''+'' \<Longrightarrow> c \<in> set r"
  by (auto simp: split_sign_def split: list.splits if_splits)

lemma split_sign_cases:
  "split_sign r3 = (eneg, ds) \<Longrightarrow> r3 = ds \<or> r3 = CHR ''-'' # ds \<or> r3 = CHR ''+'' # ds"
  by (cases r3) (auto simp: split_sign_def split: if_splits)

lemma parse_exponent_chars:
  assumes "parse_exponent r2 = Some x" "c \<in> set r2"
  shows "is_digit c \<or> c \<in> set ''eE+-''"
proof (cases r2)
  case Nil
  with assms show ?thesis by simp
next
  case (Cons e r3)
  obtain eneg ds where ss: "split_sign r3 = (eneg, ds)" by (cases "split_sign r3") auto
  from assms(1) Cons ss have e: "e = CHR ''e'' \<or> e = CHR ''E''" and ds: "list_all is_digit ds"
    by (simp_all add: parse_exponent_def Let_def split: if_splits)
  from assms(2) Cons have "c = e \<or> c \<in> set r3" by simp
  then show ?thesis
  proof
    assume "c = e" with e show ?thesis by auto
  next
    assume "c \<in> set r3"
    with split_sign_cases [OF ss] have "c \<in> set ds \<or> c = CHR ''-'' \<or> c = CHR ''+''" by auto
    with ds show ?thesis by (auto simp: list_all_iff)
  qed
qed

lemma in_take_or_drop:
  "c \<in> set xs \<Longrightarrow> c \<in> set (takeWhile P xs) \<or> c \<in> set (dropWhile P xs)"
  using set_append [of "takeWhile P xs" "dropWhile P xs"] by simp

lemma takeWhile_digit: "y \<in> set (takeWhile is_digit xs) \<Longrightarrow> is_digit y"
  by (rule set_takeWhileD [THEN conjunct2])

lemma split_fraction_chars:
  assumes "split_fraction r1 = (fp, r2)" "c \<in> set r1"
  shows "c = CHR ''.'' \<or> is_digit c \<or> c \<in> set r2"
proof (cases r1)
  case Nil
  with assms show ?thesis by simp
next
  case (Cons x r')
  show ?thesis
  proof (cases "x = CHR ''.''")
    case True
    from assms(1) Cons True have r2: "r2 = dropWhile is_digit r'"
      by (simp add: split_fraction_def)
    from assms(2) Cons have "c = x \<or> c \<in> set r'" by simp
    then show ?thesis
    proof
      assume "c = x" with True show ?thesis by simp
    next
      assume "c \<in> set r'"
      from in_take_or_drop [OF this, of is_digit] show ?thesis
        using takeWhile_digit r2 by blast
    qed
  next
    case False
    with assms(1) Cons have "r2 = r1" by (simp add: split_fraction_def)
    with assms(2) show ?thesis by simp
  qed
qed

lemma parse_decimal_exponent:
  assumes "parse_decimal r = Some v" "split_fraction (dropWhile is_digit r) = (fp, r2)"
  shows "\<exists>x. parse_exponent r2 = Some x"
proof (cases "parse_exponent r2")
  case None
  with assms show ?thesis by (simp add: parse_decimal_def Let_def split: if_splits)
next
  case (Some x)
  then show ?thesis by simp
qed

lemma parse_decimal_chars:
  assumes "parse_decimal r = Some v" "c \<in> set r"
  shows "is_digit c \<or> c \<in> set ''.eE+-''"
proof -
  obtain fp r2 where sf: "split_fraction (dropWhile is_digit r) = (fp, r2)"
    by (cases "split_fraction (dropWhile is_digit r)") auto
  from parse_decimal_exponent [OF assms(1) sf] obtain x where pe: "parse_exponent r2 = Some x" ..
  from in_take_or_drop [OF assms(2), of is_digit]
  show ?thesis
  proof
    assume "c \<in> set (takeWhile is_digit r)"
    then show ?thesis using takeWhile_digit by blast
  next
    assume 2: "c \<in> set (dropWhile is_digit r)"
    from split_fraction_chars [OF sf 2] have "c = CHR ''.'' \<or> is_digit c \<or> c \<in> set r2" .
    then show ?thesis
    proof (elim disjE)
      assume "c \<in> set r2"
      from parse_exponent_chars [OF pe this] show ?thesis by auto
    qed simp_all
  qed
qed

lemma lower_char_close_paren: "lower_char (CHR '')'') = CHR '')''" by code_simp
lemma lower_char_P: "lower_char (CHR ''P'') = CHR ''p''" by code_simp

lemma float_of_ascii_chars:
  assumes "float_of_ascii v = Some x" "c \<in> set v" "c = CHR '')'' \<or> c = CHR ''P''"
  shows False
proof -
  obtain neg r where ss: "split_sign v = (neg, r)" by (cases "split_sign v") auto
  have cr: "c \<in> set r" using split_sign_keeps [OF ss assms(2)] assms(3) by auto
  then have "lower_char c \<in> set (lower r)" by (simp add: lower_def)
  with assms(3) have l: "CHR '')'' \<in> set (lower r) \<or> CHR ''p'' \<in> set (lower r)"
    using lower_char_close_paren lower_char_P by auto
  have nd: "\<not> (is_digit c \<or> c \<in> set ''.eE+-'')" using assms(3) by (auto simp: is_digit_def)
  show False
  proof (cases "lower r = ''inf'' \<or> lower r = ''infinity'' \<or> lower r = ''nan''")
    case True
    with l show False by auto
  next
    case False
    with assms(1) ss obtain w where "parse_decimal r = Some w"
      by (cases "parse_decimal r") (simp_all add: float_of_ascii_def)
    from parse_decimal_chars [OF this cr] nd show False by blast
  qed
qed

lemma py_float_chars:
  assumes "py_float s = Some x" "c \<in> set s"
  shows "c \<noteq> CHR '')'' \<and> c \<noteq> CHR ''P''"
proof (rule ccontr)
  assume "\<not> ?thesis"
  then have c: "c = CHR '')'' \<or> c = CHR ''P''" by blast
  let ?f = "\<lambda>c. if 127 \<le> (of_char c :: nat) \<and> is_space c then CHR '' '' else c"
  obtain u where u: "strip_underscores (CHR 0x00) (map ?f s) = Some u"
    and fa: "float_of_ascii (strip_with is_ascii_space u) = Some x"
    using assms(1) by (cases "strip_underscores (CHR 0x00) (map ?f s)") (simp_all add: py_float_def)
  have "?f c = c" using c by (auto simp: is_space_def)
  then have "c \<in> set (map ?f s)" using assms(2) by force
  then have "c \<in> set u" using strip_underscores_keeps [OF u] c by auto
  moreover have "\<not> is_ascii_space c" using c by (auto simp: is_ascii_space_def)
  ultimately have "c \<in> set (strip_with is_ascii_space u)" by (rule set_strip_with_keeps)
  from float_of_ascii_chars [OF fa this c] show False .
qed

lemma py_float_empty: "py_float [] = None" by code_simp

lemma filter_neq_absent: "c \<notin> set xs \<Longrightarrow> filter (\<lambda>x. x \<noteq> c) xs = xs"
  by (induction xs) auto

lemma point_tokens_well_formed:
  assumes "py_float a = Some lon" "py_float b = Some lat"
    and "\<forall>c \<in> set a. \<not> is_space c" "\<forall>c \<in> set b. \<not> is_space c"
  shows "point_tokens (''Point('' @ a @ '' '' @ b @ '')'') = [a, b]"
proof -
  have a: "a \<noteq> []" and b: "b \<noteq> []" using assms(1,2) py_float_empty by auto
  have pa: "CHR ''P'' \<notin> set a" "CHR '')'' \<notin> set a" using py_float_chars [OF assms(1)] by auto
  have pb: "CHR ''P'' \<notin> set b" "CHR '')'' \<notin> set b" using py_float_chars [OF assms(2)] by auto
  have "str_replace ''Point('' [] (''Point('' @ (a @ '' '' @ b @ '')'')) =
        str_replace ''Point('' [] (a @ '' '' @ b @ '')'')"
    using str_replace_at_prefix [of "''Point(''" "[]" "a @ '' '' @ b @ '')''"] by simp
  also have "\<dots> = a @ '' '' @ b @ '')''"
    using pa pb by (intro str_replace_absent) auto
  finally have 1: "str_replace ''Point('' [] (''Point('' @ a @ '' '' @ b @ '')'') =
        a @ '' '' @ b @ '')''" by simp
  have 2: "str_replace '')'' [] (a @ '' '' @ b @ '')'') = a @ '' '' @ b"
    using pa pb by (simp add: str_replace_single_delete filter_neq_absent)
  show ?thesis
    unfolding point_tokens_def 1 2 using split_ws_two_tokens [OF a b assms(3,4)] .
qed

text \<open>Claim C5 says that a pair comes back only for a well-formed \<^verbatim>\<open>Point(lon lat)\<close>
  whose tokens parse as finite floats, and that every other string gives no coordinates.
  \<^verbatim>\<open>float\<close> accepts \<^verbatim>\<open>inf\<close> and \<^verbatim>\<open>nan\<close>, and the parser tests no finiteness; and
  \<^verbatim>\<open>Point(\<close> is deleted wherever it stands, so a string that is no \<^verbatim>\<open>Point(lon lat)\<close>
  can give a pair too.\<close>

theorem parse_coordinates_not_finite_counterexample:
  "parse_coordinates_optimized ''Point(inf nan)'' = (Some NaN, Some PInf) \<and>
   parse_coordinates ''Point(inf nan)'' = \<lparr>co_latitud = Some NaN, co_longitud = Some PInf\<rparr> \<and>
   parse_coordinates_optimized ''1 Point(2'' = (Some (Finite 2), Some (Finite 1))"
  by code_simp

text \<open>Claim C5, amended. The parse gives a pair exactly for a string that holds
  \<^verbatim>\<open>Point(\<close> and whose tokens (\<^const>\<open>point_tokens\<close>: what is left of the string once
  every \<^verbatim>\<open>Point(\<close> and every \<^verbatim>\<open>)\<close> is deleted, split at white space) are two strings
  that \<^verbatim>\<open>float\<close> accepts; the latitude is the float of the second token and the longitude
  that of the first. Every other string gives \<open>(None, None)\<close>; no result is half a pair,
  and the function is total. In particular \<^verbatim>\<open>Point(a b)\<close> for two tokens \<open>a\<close>, \<open>b\<close> that
  \<^verbatim>\<open>float\<close> accepts gives \<open>(float b, float a)\<close>, finite or not. The parser of the heritage
  processor computes the same two values.\<close>

theorem parse_coordinates_characterisation:
  "(parse_coordinates_optimized s = (Some lat, Some lon) \<longleftrightarrow>
      sublist ''Point('' s \<and>
      (\<exists>a b. point_tokens s = [a, b] \<and> py_float b = Some lat \<and> py_float a = Some lon)) \<and>
   (parse_coordinates_optimized s \<noteq> (None, None) \<longrightarrow>
      (\<exists>lat' lon'. parse_coordinates_optimized s = (Some lat', Some lon'))) \<and>
   (py_float a = Some lon \<and> py_float b = Some lat \<and>
    (\<forall>c \<in> set (a @ b). \<not> is_space c) \<longrightarrow>
      parse_coordinates_optimized (''Point('' @ a @ '' '' @ b @ '')'') = (Some lat, Some lon)) \<and>
   parse_coordinates s =
     \<lparr>co_latitud = fst (parse_coordinates_optimized s),
      co_longitud = snd (parse_coordinates_optimized s)\<rparr>"
proof (intro conjI impI)
  have two: "\<And>xs :: string list. length xs = 2 \<longleftrightarrow> (\<exists>a b. xs = [a, b])"
    by (metis One_nat_def Suc_1 length_0_conv length_Suc_conv)
  show "parse_coordinates_optimized s = (Some lat, Some lon) \<longleftrightarrow>
      sublist ''Point('' s \<and>
      (\<exists>a b. point_tokens s = [a, b] \<and> py_float b = Some lat \<and> py_float a = Some lon)"
  proof (cases "s = [] \<or> \<not> sublist ''Point('' s")
    case True
    then show ?thesis by (auto simp: parse_coordinates_optimized_def)
  next
    case False
    show ?thesis
    proof (cases "length (point_tokens s) = 2")
      case True
      then obtain a b where ab: "point_tokens s = [a, b]" using two by blast
      with False show ?thesis
        by (auto simp: parse_coordinates_optimized_def split: option.splits)
    next
      case False
      with two have "\<not> (\<exists>a b. point_tokens s = [a, b])" by blast
      with False show ?thesis by (auto simp: parse_coordinates_optimized_def)
    qed
  qed
  show "\<exists>lat' lon'. parse_coordinates_optimized s = (Some lat', Some lon')"
    if "parse_coordinates_optimized s \<noteq> (None, None)"
    using that by (auto simp: parse_coordinates_optimized_def Let_def split: if_splits option.splits)
  show "parse_coordinates_optimized (''Point('' @ a @ '' '' @ b @ '')'') = (Some lat, Some lon)"
    if h: "py_float a = Some lon \<and> py_float b = Some lat \<and> (\<forall>c \<in> set (a @ b). \<not> is_space c)"
  proof -
    from h have t: "point_tokens (''Point('' @ a @ '' '' @ b @ '')'') = [a, b]"
      by (intro point_tokens_well_formed) auto
    have "sublist ''Point('' (''Point('' @ a @ '' '' @ b @ '')'')" by (rule sublist_append_rightI)
    with t h show ?thesis by (simp add: parse_coordinates_optimized_def)
  qed
  show "parse_coordinates s =
     \<lparr>co_latitud = fst (parse_coordinates_optimized s),
      co_longitud = snd (parse_coordinates_optimized s)\<rparr>"
    by (simp add: parse_coordinates_def parse_coordinates_optimized_def Let_def split: option.splits)
qed

theorem parse_coordinates_witness:
  "parse_coordinates_optimized ''Point(-79.5 -2)'' =
     (Some (Finite (- 2)), Some (Finite (- 159 / 2)))"
proof -
  have a: "py_float ''-79.5'' = Some (Finite (- 159 / 2))" by code_simp
  have b: "py_float ''-2'' = Some (Finite (- 2))" by code_simp
  have c: "\<forall>c \<in> set (''-79.5'' @ ''-2''). \<not> is_space c" by code_simp
  from parse_coordinates_characterisation [of "[]" "Finite (- 2)" "Finite (- 159 / 2)" "''-79.5''" "''-2''"] a b c
  show ?thesis by simp
qed

subsection \<open>The enrichment merge\<close>

text \<open>The keys of the merged dictionary are set by the primary list and are not
  changed by an enrichment.\<close>

lemma map_fst_map_entry: "map fst (AList.map_entry k f m) = map fst m"
  by (induction m) auto

lemma map_fst_add_enrichment: "map fst (add_enrichment src site m) = map fst m"
  by (simp add: add_enrichment_def map_fst_map_entry)

lemma map_fst_fold_add_enrichment: "map fst (fold (add_enrichment src) xs m) = map fst m"
  by (induction xs arbitrary: m) (simp_all add: map_fst_add_enrichment)

lemma distinct_fold_add_primary:
  "distinct (map fst m) \<Longrightarrow> distinct (map fst (fold add_primary p m))"
  by (induction p arbitrary: m) (simp_all add: add_primary_def distinct_update)

lemma keys_fold_add_primary:
  "set (map fst (fold add_primary p m)) = set (map fst m) \<union> (site_id ` set p - {[]})"
proof (induction p arbitrary: m)
  case Nil
  then show ?case by simp
next
  case (Cons s p)
  have "set (map fst (add_primary s m)) = set (map fst m) \<union> ({site_id s} - {[]})"
    by (auto simp: add_primary_def dom_update)
  with Cons show ?case by auto
qed

lemma in_update:
  "(k', e) \<in> set (AList.update k v m) \<Longrightarrow> (k', e) = (k, v) \<or> (k', e) \<in> set m"
  by (induction m) (auto split: if_splits)

lemma in_map_entry:
  "(k', e) \<in> set (AList.map_entry k f m) \<Longrightarrow>
     (k', e) \<in> set m \<or> (k' = k \<and> (\<exists>e0. (k, e0) \<in> set m \<and> e = f e0))"
  by (induction m) (auto split: if_splits)

lemma entry_ok_add_primary:
  assumes "\<forall>ke \<in> set m. entry_ok S ke" "s \<in> S"
  shows "\<forall>ke \<in> set (add_primary s m). entry_ok S ke"
proof
  fix ke assume ke: "ke \<in> set (add_primary s m)"
  obtain k e where [simp]: "ke = (k, e)" by (cases ke)
  show "entry_ok S ke"
  proof (cases "site_id s = []")
    case True
    with ke assms show ?thesis by (simp add: add_primary_def)
  next
    case False
    with ke have "(k, e) \<in> set (AList.update (site_id s)
        \<lparr>ms_source = ''wikidata_general'', ms_data = s, ms_enrichments = []\<rparr> m)"
      by (simp add: add_primary_def)
    from in_update [OF this] assms show ?thesis
      by (auto simp: entry_ok_def)
  qed
qed

lemma entry_ok_fold_add_primary:
  "\<forall>ke \<in> set m. entry_ok S ke \<Longrightarrow> set p \<subseteq> S \<Longrightarrow>
   \<forall>ke \<in> set (fold add_primary p m). entry_ok S ke"
proof (induction p arbitrary: m)
  case Nil
  then show ?case by simp
next
  case (Cons s p)
  from Cons.prems have "\<forall>ke \<in> set (add_primary s m). entry_ok S ke"
    by (intro entry_ok_add_primary) auto
  with Cons show ?case by simp
qed

lemma entry_ok_add_enrichment:
  assumes "\<forall>ke \<in> set m. entry_ok S ke"
  shows "\<forall>ke \<in> set (add_enrichment src x m). entry_ok S ke"
proof
  fix ke assume ke: "ke \<in> set (add_enrichment src x m)"
  obtain k e where [simp]: "ke = (k, e)" by (cases ke)
  show "entry_ok S ke"
  proof (cases "site_id x \<in> set (map fst m)")
    case False
    with ke assms show ?thesis by (simp add: add_enrichment_def)
  next
    case True
    with ke have "(k, e) \<in> set (AList.map_entry (site_id x)
             (\<lambda>e. e\<lparr>ms_enrichments :=
                        ms_enrichments e @ [\<lparr>en_source = src, en_data = x\<rparr>]\<rparr>) m)"
      by (simp add: add_enrichment_def)
    from in_map_entry [OF this] assms show ?thesis
      by (auto simp: entry_ok_def)
  qed
qed

lemma entry_ok_fold_add_enrichment:
  "\<forall>ke \<in> set m. entry_ok S ke \<Longrightarrow>
   \<forall>ke \<in> set (fold (add_enrichment src) xs m). entry_ok S ke"
proof (induction xs arbitrary: m)
  case Nil
  then show ?case by simp
next
  case (Cons x xs)
  from Cons.prems have "\<forall>ke \<in> set (add_enrichment src x m). entry_ok S ke"
    by (rule entry_ok_add_enrichment)
  from Cons.IH [OF this] show ?case by simp
qed

lemma add_enrichment_orphan:
  "site_id x \<notin> set (map fst m) \<Longrightarrow> add_enrichment src x m = m"
  by (simp add: add_enrichment_def)

lemma fold_add_enrichment_filter:
  "fold (add_enrichment src) xs m =
   fold (add_enrichment src) (filter (\<lambda>x. site_id x \<in> set (map fst m)) xs) m"
proof (induction xs arbitrary: m)
  case Nil
  then show ?case by simp
next
  case (Cons x xs)
  have k: "set (map fst (add_enrichment src x m)) = set (map fst m)"
    by (simp add: map_fst_add_enrichment)
  show ?case
  proof (cases "site_id x \<in> set (map fst m)")
    case True
    then show ?thesis using Cons [of "add_enrichment src x m"] k by simp
  next
    case False
    then show ?thesis using Cons [of m] by (simp add: add_enrichment_orphan)
  qed
qed


lemma merge_heritage_data_unfold:
  "merge_heritage_data g d u a r =
     map snd (fold (add_enrichment ''religious'') (or_empty r)
       (fold (add_enrichment ''archaeological'') (or_empty a)
         (fold (add_enrichment ''unesco'') (or_empty u)
           (fold add_primary (or_empty g) []))))"
  by (simp add: merge_heritage_data_def Let_def)

lemma merged_keys:
  "map fst (fold (add_enrichment s3) zs (fold (add_enrichment s2) ys
     (fold (add_enrichment s1) xs (fold add_primary p [])))) = map fst (fold add_primary p [])"
  by (simp add: map_fst_fold_add_enrichment)

text \<open>Claim C2. Every record of the merged output is a record of the primary list,
  with a source key that is not empty, and carries only detail records of its own key;
  the output has one record for each distinct source key of the primary list (a binding
  whose \<^verbatim>\<open>sitio\<close> is missing or empty has no source key and is not a record of the
  output), so its length is the number of these keys; and the detail records of the three
  secondary lists whose key is no key of the primary list can be taken away without any
  change of the output.\<close>

theorem merge_heritage_data_left_join:
  "(\<forall>e \<in> set (merge_heritage_data g d u a r).
      ms_source e = ''wikidata_general'' \<and> ms_data e \<in> set (or_empty g) \<and>
      site_id (ms_data e) \<noteq> [] \<and>
      (\<forall>x \<in> set (ms_enrichments e). site_id (en_data x) = site_id (ms_data e))) \<and>
   distinct (map (\<lambda>e. site_id (ms_data e)) (merge_heritage_data g d u a r)) \<and>
   length (merge_heritage_data g d u a r) = card (site_id ` set (or_empty g) - {[]}) \<and>
   merge_heritage_data g d u a r =
     merge_heritage_data g d
       (Some (filter (\<lambda>x. site_id x \<in> site_id ` set (or_empty g) - {[]}) (or_empty u)))
       (Some (filter (\<lambda>x. site_id x \<in> site_id ` set (or_empty g) - {[]}) (or_empty a)))
       (Some (filter (\<lambda>x. site_id x \<in> site_id ` set (or_empty g) - {[]}) (or_empty r)))"
proof -
  let ?p = "or_empty g"
  let ?m0 = "fold add_primary ?p []"
  let ?m1 = "fold (add_enrichment ''unesco'') (or_empty u) ?m0"
  let ?m2 = "fold (add_enrichment ''archaeological'') (or_empty a) ?m1"
  let ?m3 = "fold (add_enrichment ''religious'') (or_empty r) ?m2"
  let ?K = "site_id ` set ?p - {[]}"
  have out: "merge_heritage_data g d u a r = map snd ?m3"
    by (rule merge_heritage_data_unfold)
  have k0: "set (map fst ?m0) = ?K" using keys_fold_add_primary [of ?p "[]"] by simp
  have k1: "map fst ?m1 = map fst ?m0" by (rule map_fst_fold_add_enrichment)
  have k2: "map fst ?m2 = map fst ?m0" by (simp add: map_fst_fold_add_enrichment)
  have k3: "map fst ?m3 = map fst ?m0" by (simp add: map_fst_fold_add_enrichment)
  have d0: "distinct (map fst ?m0)" by (rule distinct_fold_add_primary) simp
  have ok0: "\<forall>ke \<in> set ?m0. entry_ok (set ?p) ke"
    by (rule entry_ok_fold_add_primary) simp_all
  have ok3: "\<forall>ke \<in> set ?m3. entry_ok (set ?p) ke"
    by (intro entry_ok_fold_add_enrichment ok0)
  have key_of: "\<forall>ke \<in> set ?m3. site_id (ms_data (snd ke)) = fst ke"
    using ok3 by (simp add: entry_ok_def)
  then have keys_eq: "map (\<lambda>e. site_id (ms_data e)) (map snd ?m3) = map fst ?m3"
    by simp
  have A: "\<forall>e \<in> set (merge_heritage_data g d u a r).
      ms_source e = ''wikidata_general'' \<and> ms_data e \<in> set (or_empty g) \<and>
      site_id (ms_data e) \<noteq> [] \<and>
      (\<forall>x \<in> set (ms_enrichments e). site_id (en_data x) = site_id (ms_data e))"
  proof
    fix e assume "e \<in> set (merge_heritage_data g d u a r)"
    then obtain k where ke: "(k, e) \<in> set ?m3" unfolding out by auto
    with ok3 have ok: "entry_ok (set ?p) (k, e)" by blast
    from ke have "k \<in> set (map fst ?m3)" by force
    then have "k \<in> ?K" using k3 k0 by simp
    then have "k \<noteq> []" by simp
    with ok show "ms_source e = ''wikidata_general'' \<and> ms_data e \<in> set (or_empty g) \<and>
      site_id (ms_data e) \<noteq> [] \<and>
      (\<forall>x \<in> set (ms_enrichments e). site_id (en_data x) = site_id (ms_data e))"
      by (simp add: entry_ok_def)
  qed
  have B: "distinct (map (\<lambda>e. site_id (ms_data e)) (merge_heritage_data g d u a r))"
    unfolding out keys_eq k3 by (rule d0)
  have "length (merge_heritage_data g d u a r) = length (map fst ?m0)"
    unfolding out using k3 by (metis length_map)
  also have "\<dots> = card (set (map fst ?m0))" using distinct_card [OF d0] by simp
  finally have C: "length (merge_heritage_data g d u a r) = card ?K" using k0 by simp
  have f1: "?m1 = fold (add_enrichment ''unesco'')
               (filter (\<lambda>x. site_id x \<in> ?K) (or_empty u)) ?m0"
    using fold_add_enrichment_filter [of "''unesco''" "or_empty u" ?m0] k0 by simp
  have f2: "?m2 = fold (add_enrichment ''archaeological'')
               (filter (\<lambda>x. site_id x \<in> ?K) (or_empty a)) ?m1"
    using fold_add_enrichment_filter [of "''archaeological''" "or_empty a" ?m1] k0 k1 by simp
  have f3: "?m3 = fold (add_enrichment ''religious'')
               (filter (\<lambda>x. site_id x \<in> ?K) (or_empty r)) ?m2"
    using fold_add_enrichment_filter [of "''religious''" "or_empty r" ?m2] k0 k2 by simp
  have D: "merge_heritage_data g d u a r =
     merge_heritage_data g d
       (Some (filter (\<lambda>x. site_id x \<in> ?K) (or_empty u)))
       (Some (filter (\<lambda>x. site_id x \<in> ?K) (or_empty a)))
       (Some (filter (\<lambda>x. site_id x \<in> ?K) (or_empty r)))"
    unfolding merge_heritage_data_unfold
    apply (simp only: or_empty_def option.case)
    apply (fold or_empty_def)
    using f1 f2 f3 by simp
  from A B C D show ?thesis by blast
qed


theorem merge_heritage_data_witness:
  "length (merge_heritage_data
     (Some [[(''sitio'', [(''value'', ''Q1'')]), (''sitioLabel'', [(''value'', ''Ingapirca'')])],
            [(''sitio'', [(''value'', ''Q1'')]), (''sitioLabel'', [(''value'', ''Ingapirca ruins'')])],
            [(''sitioLabel'', [(''value'', ''Sin clave'')])]])
     None
     (Some [[(''sitio'', [(''value'', ''Q9'')])], [(''sitio'', [(''value'', ''Q1'')])]])
     None None) = 1 \<and>
   merge_heritage_data
     (Some [[(''sitio'', [(''value'', ''Q1'')]), (''sitioLabel'', [(''value'', ''Ingapirca'')])],
            [(''sitio'', [(''value'', ''Q1'')]), (''sitioLabel'', [(''value'', ''Ingapirca ruins'')])],
            [(''sitioLabel'', [(''value'', ''Sin clave'')])]])
     None
     (Some [[(''sitio'', [(''value'', ''Q9'')])], [(''sitio'', [(''value'', ''Q1'')])]])
     None None =
   merge_heritage_data
     (Some [[(''sitio'', [(''value'', ''Q1'')]), (''sitioLabel'', [(''value'', ''Ingapirca'')])],
            [(''sitio'', [(''value'', ''Q1'')]), (''sitioLabel'', [(''value'', ''Ingapirca ruins'')])],
            [(''sitioLabel'', [(''value'', ''Sin clave'')])]])
     None
     (Some [[(''sitio'', [(''value'', ''Q1'')])]])
     (Some []) (Some [])"
proof -
  let ?g = "Some [[(''sitio'', [(''value'', ''Q1'')]), (''sitioLabel'', [(''value'', ''Ingapirca'')])],
            [(''sitio'', [(''value'', ''Q1'')]), (''sitioLabel'', [(''value'', ''Ingapirca ruins'')])],
            [(''sitioLabel'', [(''value'', ''Sin clave'')])]]"
  let ?u = "Some [[(''sitio'', [(''value'', ''Q9'')])], [(''sitio'', [(''value'', ''Q1'')])]]"
  note t = merge_heritage_data_left_join [of ?g None ?u None None]
  have K: "site_id ` set (or_empty ?g) - {[]} = {''Q1''}"
    by (auto simp: site_id_def get_value_def or_empty_def)
  have len: "length (merge_heritage_data ?g None ?u None None) = 1"
    using t [THEN conjunct2, THEN conjunct2, THEN conjunct1] unfolding K by simp
  have eq: "merge_heritage_data ?g None ?u None None =
            merge_heritage_data ?g None (Some [[(''sitio'', [(''value'', ''Q1'')])]]) (Some []) (Some [])"
    using t [THEN conjunct2, THEN conjunct2, THEN conjunct2] unfolding K
    by (simp add: site_id_def get_value_def or_empty_def)
  from len eq show ?thesis by simp
qed

subsection \<open>The staleness check\<close>

lemma snd_is_database_empty: "snd (is_database_empty t w) = w"
  by (simp add: is_database_empty_def)

lemma snd_cache_get: "snd (cache_get k w) = w"
  by (simp add: cache_get_def split: option.splits prod.splits)

lemma is_database_empty_provincias:
  "is_database_empty ''provincias'' w = (length (provincias (db w)) = 0, w)"
  by (simp add: is_database_empty_def)
lemma is_database_empty_parques:
  "is_database_empty ''parques'' w = (length (parques (db w)) = 0, w)"
  by (simp add: is_database_empty_def)
lemma is_database_empty_sitios:
  "is_database_empty ''sitios'' w = (length (sitios (db w)) = 0, w)"
  by (simp add: is_database_empty_def)
lemma is_database_empty_plazas:
  "is_database_empty ''plazas'' w = (length (plazas (db w)) = 0, w)"
  by (simp add: is_database_empty_def)

lemma should_sync_unfold:
  "should_sync t w =
     (if fst (is_database_empty t w) then (True, w)
      else case fst (cache_get (''last_sync_'' @ t) w) of
             None \<Rightarrow> (True, w)
           | Some stamp \<Rightarrow> (of_int (interval_of w) < total_seconds (now w - stamp), w))"
proof -
  obtain e where e: "is_database_empty t w = (e, w)"
    using snd_is_database_empty [of t w] by (cases "is_database_empty t w") auto
  obtain c where c: "cache_get (''last_sync_'' @ t) w = (c, w)"
    using snd_cache_get [of "''last_sync_'' @ t" w]
    by (cases "cache_get (''last_sync_'' @ t) w") auto
  show ?thesis
    using e c by (cases c) (simp_all add: should_sync_def timezone_now_def interval_of_def)
qed

lemma is_database_empty_entity:
  assumes "t \<in> set entity_types"
  shows "fst (is_database_empty t w) \<longleftrightarrow> row_count t (db w) = 0"
proof -
  from assms consider "t = ''provincias''" | "t = ''parques''" | "t = ''sitios''" | "t = ''plazas''"
    unfolding entity_types_def by auto
  then show ?thesis
  proof cases
    case 1 then show ?thesis by (simp add: is_database_empty_provincias row_count_def)
  next
    case 2 then show ?thesis by (simp add: is_database_empty_parques row_count_def)
  next
    case 3 then show ?thesis by (simp add: is_database_empty_sitios row_count_def)
  next
    case 4 then show ?thesis by (simp add: is_database_empty_plazas row_count_def)
  qed
qed

text \<open>Claim C4. For an entity type, \<open>should_sync\<close> answers \<open>True\<close> exactly when the
  store has no record of that type, or \<^verbatim>\<open>cache.get\<close> finds no time of the last
  synchronisation, or more seconds than the configured interval have passed since that
  time; it gives the state back as it took it; the interval is 21600 seconds when the
  setting is absent; and with no park in the store the answer for \<^verbatim>\<open>parques\<close> is \<open>True\<close>
  whatever the cache holds.\<close>

theorem should_sync_iff:
  "(t \<in> set entity_types \<longrightarrow>
      (fst (should_sync t w) \<longleftrightarrow>
         row_count t (db w) = 0 \<or>
         fst (cache_get (''last_sync_'' @ t) w) = None \<or>
         (\<exists>stamp. fst (cache_get (''last_sync_'' @ t) w) = Some stamp \<and>
                 of_int (interval_of w) < total_seconds (now w - stamp)))) \<and>
   snd (should_sync t w) = w \<and>
   (sync_interval w = None \<longrightarrow> interval_of w = 21600) \<and>
   (parques (db w) = [] \<longrightarrow> fst (should_sync ''parques'' w))"
proof (intro conjI impI)
  show "snd (should_sync t w) = w"
    unfolding should_sync_unfold by (simp split: option.splits)
  show "interval_of w = 21600" if "sync_interval w = None"
    using that by (simp add: interval_of_def)
  show "fst (should_sync ''parques'' w)" if "parques (db w) = []"
    unfolding should_sync_unfold using that by (simp add: is_database_empty_parques)
  show "fst (should_sync t w) \<longleftrightarrow>
         row_count t (db w) = 0 \<or>
         fst (cache_get (''last_sync_'' @ t) w) = None \<or>
         (\<exists>stamp. fst (cache_get (''last_sync_'' @ t) w) = Some stamp \<and>
                 of_int (interval_of w) < total_seconds (now w - stamp))"
    if "t \<in> set entity_types"
    unfolding should_sync_unfold is_database_empty_entity [OF that]
    by (cases "fst (cache_get (''last_sync_'' @ t) w)") simp_all
qed

text \<open>With no park in the store and a time of the last synchronisation in the cache that
  is one second old, the answer is \<open>True\<close>.\<close>

theorem should_sync_witness:
  "fst (should_sync ''parques''
          \<lparr>db = \<lparr>provincias = [], parques = [], sitios = [], plazas = []\<rparr>,
           default_cache = [''last_sync_parques'' \<mapsto> (0, 86400000000)],
           dashboard_stats = False, now = 1000000, sync_interval = None\<rparr>)"
proof -
  let ?w = "\<lparr>db = \<lparr>provincias = [], parques = [], sitios = [], plazas = []\<rparr>,
           default_cache = [''last_sync_parques'' \<mapsto> (0, 86400000000)],
           dashboard_stats = False, now = 1000000, sync_interval = None\<rparr>"
  have "parques (db ?w) = []" by simp
  with should_sync_iff [of "''parques''" ?w] show ?thesis by blast
qed

subsection \<open>The clean-up pass\<close>

text \<open>The two filters on a column delete what lies outside the interval.\<close>

lemma outside_filters: "outside v lo hi \<longleftrightarrow> lt_filter v lo \<or> gt_filter v hi"
  by (simp add: outside_def lt_filter_def gt_filter_def split: option.splits pyfloat.splits)

text \<open>A run of deletions keeps the rows that no filter of the run matches, and counts the
  rows it deletes.\<close>

lemma delete_steps_Cons:
  "delete_steps (P # Ps) (n, rows) =
     delete_steps Ps (n + length (filter P rows), filter (\<lambda>r. \<not> P r) rows)"
  by (simp add: delete_steps_def delete_step_def delete_where_def)

lemma delete_steps_rows:
  "snd (delete_steps Ps (n, rows)) = filter (\<lambda>r. \<not> list_ex (\<lambda>P. P r) Ps) rows"
proof (induction Ps arbitrary: n rows)
  case Nil
  then show ?case by (simp add: delete_steps_def)
next
  case (Cons P Ps)
  show ?case unfolding delete_steps_Cons Cons.IH by (auto intro: filter_cong)
qed

lemma delete_steps_count:
  "fst (delete_steps Ps (n, rows)) + length (snd (delete_steps Ps (n, rows))) = n + length rows"
proof (induction Ps arbitrary: n rows)
  case Nil
  then show ?case by (simp add: delete_steps_def)
next
  case (Cons P Ps)
  have "length (filter P rows) + length (filter (\<lambda>r. \<not> P r) rows) = length rows"
    by (rule sum_length_filter_compl)
  with Cons.IH [of "n + length (filter P rows)" "filter (\<lambda>r. \<not> P r) rows"]
  show ?case unfolding delete_steps_Cons by simp
qed

lemma bounding_box_rows:
  "snd (delete_steps bounding_box_steps (n, rows)) =
     filter (\<lambda>r. nombre r \<noteq> [] \<and> \<not> outside_box r) rows"
  unfolding delete_steps_rows
  by (rule filter_cong) (auto simp: bounding_box_steps_def outside_box_def outside_filters)

lemma provincia_rows:
  "snd (delete_steps provincia_steps (n, rows)) =
     filter (\<lambda>r. nombre r \<noteq> [] \<and> wikidata_id r \<in> set ecuador_provinces) rows"
  unfolding delete_steps_rows
  by (rule filter_cong) (auto simp: provincia_steps_def)

lemma clean_irrelevant_data_unfold:
  "clean_irrelevant_data s =
    (fst (delete_steps bounding_box_steps
       (fst (delete_steps bounding_box_steps
          (fst (delete_steps bounding_box_steps
             (fst (delete_steps provincia_steps (0, provincias s)), parques s)), sitios s)),
        plazas s)),
     \<lparr>provincias = snd (delete_steps provincia_steps (0, provincias s)),
      parques = snd (delete_steps bounding_box_steps
             (fst (delete_steps provincia_steps (0, provincias s)), parques s)),
      sitios = snd (delete_steps bounding_box_steps
          (fst (delete_steps bounding_box_steps
             (fst (delete_steps provincia_steps (0, provincias s)), parques s)), sitios s)),
      plazas = snd (delete_steps bounding_box_steps
       (fst (delete_steps bounding_box_steps
          (fst (delete_steps bounding_box_steps
             (fst (delete_steps provincia_steps (0, provincias s)), parques s)), sitios s)),
        plazas s))\<rparr>)"
  by (simp add: clean_irrelevant_data_def split_beta)


text \<open>Claim C7 says that the records whose coordinates are absent are kept. A park with no
  coordinates and an empty name is deleted, by the deletion of the parks with an empty
  name, and counted.\<close>

theorem clean_irrelevant_data_empty_name_counterexample:
  "latitud \<lparr>pk = 1, nombre = [], latitud = None, longitud = None, imagen_url = None,
             wikidata_id = ''Q1'', fecha_actualizacion = 0, parq_descripcion = None,
             parq_area = None, parq_fecha_establecimiento = None, parq_website_url = None,
             parq_provincia = None\<rparr> = None \<and>
   clean_irrelevant_data
     \<lparr>provincias = [],
      parques = [\<lparr>pk = 1, nombre = [], latitud = None, longitud = None, imagen_url = None,
             wikidata_id = ''Q1'', fecha_actualizacion = 0, parq_descripcion = None,
             parq_area = None, parq_fecha_establecimiento = None, parq_website_url = None,
             parq_provincia = None\<rparr>],
      sitios = [], plazas = []\<rparr> =
   (1, \<lparr>provincias = [], parques = [], sitios = [], plazas = []\<rparr>)"
  by (simp add: clean_irrelevant_data_def delete_steps_def delete_step_def delete_where_def
      provincia_steps_def bounding_box_steps_def)

text \<open>Claim C7, amended. The clean-up pass keeps, in their order, the parks, the heritage
  sites and the plazas that have a name and neither a latitude outside \<open>[-5, 2]\<close> nor a
  longitude outside \<open>[-92, -75]\<close>, an absent coordinate being outside of nothing, and
  the provinces that have a name and a \<^verbatim>\<open>wikidata_id\<close> of the official list; it deletes
  every other record; and the number it reports is the number of records it deleted,
  over the four tables.\<close>

theorem clean_irrelevant_data_characterisation:
  "provincias (snd (clean_irrelevant_data s)) =
     filter (\<lambda>r. nombre r \<noteq> [] \<and> wikidata_id r \<in> set ecuador_provinces) (provincias s) \<and>
   parques (snd (clean_irrelevant_data s)) =
     filter (\<lambda>r. nombre r \<noteq> [] \<and> \<not> outside_box r) (parques s) \<and>
   sitios (snd (clean_irrelevant_data s)) =
     filter (\<lambda>r. nombre r \<noteq> [] \<and> \<not> outside_box r) (sitios s) \<and>
   plazas (snd (clean_irrelevant_data s)) =
     filter (\<lambda>r. nombre r \<noteq> [] \<and> \<not> outside_box r) (plazas s) \<and>
   fst (clean_irrelevant_data s) +
     (length (provincias (snd (clean_irrelevant_data s))) +
      length (parques (snd (clean_irrelevant_data s))) +
      length (sitios (snd (clean_irrelevant_data s))) +
      length (plazas (snd (clean_irrelevant_data s)))) =
   length (provincias s) + length (parques s) + length (sitios s) + length (plazas s)"
proof -
  let ?a = "delete_steps provincia_steps (0, provincias s)"
  let ?b = "delete_steps bounding_box_steps (fst ?a, parques s)"
  let ?c = "delete_steps bounding_box_steps (fst ?b, sitios s)"
  let ?d = "delete_steps bounding_box_steps (fst ?c, plazas s)"
  have res: "clean_irrelevant_data s =
      (fst ?d, \<lparr>provincias = snd ?a, parques = snd ?b, sitios = snd ?c, plazas = snd ?d\<rparr>)"
    by (rule clean_irrelevant_data_unfold)
  have a: "fst ?a + length (snd ?a) = length (provincias s)"
    using delete_steps_count [of provincia_steps 0 "provincias s"] by simp
  have b: "fst ?b + length (snd ?b) = fst ?a + length (parques s)"
    by (rule delete_steps_count)
  have c: "fst ?c + length (snd ?c) = fst ?b + length (sitios s)"
    by (rule delete_steps_count)
  have d: "fst ?d + length (snd ?d) = fst ?c + length (plazas s)"
    by (rule delete_steps_count)
  have count: "fst ?d + (length (snd ?a) + length (snd ?b) + length (snd ?c) + length (snd ?d)) =
      length (provincias s) + length (parques s) + length (sitios s) + length (plazas s)"
    using a b c d by linarith
  show ?thesis
    unfolding res using count by (simp add: provincia_rows bounding_box_rows)
qed

text \<open>Of a plaza of Quito, a plaza of Madrid and a plaza with no coordinates, the second
  is deleted and the count is one.\<close>

theorem clean_irrelevant_data_witness:
  "clean_irrelevant_data
     \<lparr>provincias = [], parques = [], sitios = [],
      plazas =
        [\<lparr>pk = 11, nombre = ''Plaza Grande'', latitud = Some (Finite (- (11 / 50))),
          longitud = Some (Finite (- (157 / 2))), imagen_url = None, wikidata_id = ''Q1'',
          fecha_actualizacion = 0, plz_ciudad = None, plz_descripcion = None\<rparr>,
         \<lparr>pk = 12, nombre = ''Plaza Mayor'', latitud = Some (Finite (202 / 5)),
          longitud = Some (Finite (- (37 / 10))), imagen_url = None, wikidata_id = ''Q2'',
          fecha_actualizacion = 0, plz_ciudad = None, plz_descripcion = None\<rparr>,
         \<lparr>pk = 13, nombre = ''Plaza Central'', latitud = None,
          longitud = None, imagen_url = None, wikidata_id = ''Q3'',
          fecha_actualizacion = 0, plz_ciudad = None, plz_descripcion = None\<rparr>]\<rparr> =
   (1, \<lparr>provincias = [], parques = [], sitios = [],
      plazas =
        [\<lparr>pk = 11, nombre = ''Plaza Grande'', latitud = Some (Finite (- (11 / 50))),
          longitud = Some (Finite (- (157 / 2))), imagen_url = None, wikidata_id = ''Q1'',
          fecha_actualizacion = 0, plz_ciudad = None, plz_descripcion = None\<rparr>,
         \<lparr>pk = 13, nombre = ''Plaza Central'', latitud = None,
          longitud = None, imagen_url = None, wikidata_id = ''Q3'',
          fecha_actualizacion = 0, plz_ciudad = None, plz_descripcion = None\<rparr>]\<rparr>)"
  (is "clean_irrelevant_data ?s = (1, ?s')")
proof -
  note th = clean_irrelevant_data_characterisation [of ?s]
  have 1: "provincias (snd (clean_irrelevant_data ?s)) = provincias ?s'"
    using th by simp
  have 2: "parques (snd (clean_irrelevant_data ?s)) = parques ?s'"
    using th by simp
  have 3: "sitios (snd (clean_irrelevant_data ?s)) = sitios ?s'"
    using th by simp
  have 4: "plazas (snd (clean_irrelevant_data ?s)) = plazas ?s'"
    using th by (simp add: outside_box_def outside_def)
  have 5: "fst (clean_irrelevant_data ?s) = 1"
    using th by (simp add: 1 2 3 4)
  from 1 2 3 4 5 have "snd (clean_irrelevant_data ?s) = ?s' \<and> fst (clean_irrelevant_data ?s) = 1"
    by (simp add: record_store.equality)
  then show ?thesis
    by (cases "clean_irrelevant_data ?s") simp
qed

end
